theory Spec2Isabelle
  imports Complex_Main "HOL-Library.Log_Nat"
begin

section \<open>JavaScript values at the boundary of the session code\<close>

text \<open>
  A value of type \<^verbatim>\<open>string | null\<close> (what \<^verbatim>\<open>Storage.getItem\<close> returns, what the fields
  \<^verbatim>\<open>authToken\<close> and \<^verbatim>\<open>token\<close> hold) is a \<^typ>\<open>string option\<close>, \<open>None\<close> for
  \<^verbatim>\<open>null\<close>. The code never compares such a value with \<^verbatim>\<open>null\<close>: it tests it for
  truthiness (\<^verbatim>\<open>!!x\<close>, \<^verbatim>\<open>!x\<close>, \<^verbatim>\<open>a || b\<close>, \<^verbatim>\<open>a ? b : c\<close>), and the empty string is falsy.
\<close>

definition truthy :: "string option \<Rightarrow> bool" where
  "truthy v = (case v of None \<Rightarrow> False | Some s \<Rightarrow> s \<noteq> [])"

text \<open>\<^verbatim>\<open>a || b\<close>: the left operand when it is truthy, the right one otherwise.\<close>

definition js_or :: "string option \<Rightarrow> string option \<Rightarrow> string option" where
  "js_or a b = (if truthy a then a else b)"

text \<open>
  \<^verbatim>\<open>localStorage\<close> and \<^verbatim>\<open>sessionStorage\<close> are key-value stores of strings.
\<close>

type_synonym storage = "string \<rightharpoonup> string"

definition getItem :: "storage \<Rightarrow> string \<Rightarrow> string option" where
  "getItem st k = st k"

definition setItem :: "storage \<Rightarrow> string \<Rightarrow> string \<Rightarrow> storage" where
  "setItem st k v = st(k \<mapsto> v)"

definition removeItem :: "storage \<Rightarrow> string \<Rightarrow> storage" where
  "removeItem st k = st(k := None)"

text \<open>
  What a \<^verbatim>\<open>throw\<close> carries. \<open>Error m\<close> is \<^verbatim>\<open>new Error(m)\<close>, created by the code under
  study; \<open>Rejection r\<close> is whatever a call of \<^verbatim>\<open>apiService\<close> rejects with (the HTTP layer
  is outside the modelled sources, so its rejections are opaque values).
\<close>

datatype js_error = Error string | Rejection string

text \<open>
  The two ways an awaited promise can end, and \<^verbatim>\<open>ApiResponse<T>\<close>, which the calls of
  \<^verbatim>\<open>apiService\<close> resolve with.
\<close>

datatype 'r awaited = Rejected string | Resolved 'r

record 'a api_response =
  success :: bool
  data :: "'a option"
  message :: "string option"

section \<open>The session manager (services/authService.ts)\<close>

text \<open>
  \<^verbatim>\<open>LoginForm\<close>, \<^verbatim>\<open>LoginResponse\<close> and the state an \<^verbatim>\<open>AuthService\<close> reads and writes:
  its two private fields and the two browser stores. The user record is a type
  parameter; \<^verbatim>\<open>JSON.stringify\<close> on it is the parameter \<open>stringify\<close> of \<open>login\<close>.
\<close>

record login_form =
  email :: string
  password :: string
  remember :: bool

record 'u login_response =
  resp_user :: 'u
  resp_token :: string
  resp_refreshToken :: string

record 'u auth_service =
  currentUser :: "'u option"
  authToken :: "string option"
  localStorage :: storage
  sessionStorage :: storage

text \<open>\<^verbatim>\<open>isAuthenticated(): return !!(this.authToken && this.currentUser)\<close>\<close>

definition isAuthenticated :: "'u auth_service \<Rightarrow> bool" where
  "isAuthenticated s = (truthy (authToken s) \<and> currentUser s \<noteq> None)"

definition clearAuth :: "'u auth_service \<Rightarrow> 'u auth_service" where
  "clearAuth s =
     s\<lparr> authToken := None,
        currentUser := None,
        localStorage :=
          removeItem (removeItem (removeItem (localStorage s) ''authToken'') ''refreshToken'') ''user'',
        sessionStorage :=
          removeItem (removeItem (sessionStorage s) ''authToken'') ''refreshToken'' \<rparr>"

text \<open>
  An asynchronous method ends by resolving (\<open>Inr\<close>) or rejecting (\<open>Inl\<close>), and leaves a
  state behind in both cases; its model returns the pair. The outcome of the one
  awaited request is an argument.

  \<^verbatim>\<open>login\<close>: the parameter \<open>h\<close> is \<^verbatim>\<open>handleApiError\<close>.
\<close>

definition login_try ::
  "('u \<Rightarrow> string) \<Rightarrow> 'u login_response api_response awaited \<Rightarrow> login_form \<Rightarrow> 'u auth_service
     \<Rightarrow> js_error + ('u login_response \<times> 'u auth_service)" where
  "login_try stringify outcome credentials s =
     (case outcome of
        Rejected r \<Rightarrow> Inl (Rejection r)
      | Resolved response \<Rightarrow>
          (case data response of
             None \<Rightarrow>
               Inl (Error (if truthy (message response) then the (message response)
                           else ''Login failed''))
           | Some d \<Rightarrow>
               if \<not> success response
               then Inl (Error (if truthy (message response) then the (message response)
                                else ''Login failed''))
               else
                 let s1 = s\<lparr> authToken := Some (resp_token d), currentUser := Some (resp_user d) \<rparr>;
                     s2 = (if remember credentials
                           then s1\<lparr> localStorage :=
                                  setItem (setItem (localStorage s1) ''authToken'' (resp_token d))
                                    ''refreshToken'' (resp_refreshToken d) \<rparr>
                           else s1\<lparr> sessionStorage :=
                                  setItem (setItem (sessionStorage s1) ''authToken'' (resp_token d))
                                    ''refreshToken'' (resp_refreshToken d) \<rparr>);
                     s3 = s2\<lparr> localStorage :=
                                setItem (localStorage s2) ''user'' (stringify (resp_user d)) \<rparr>
                 in Inr (d, s3)))"

definition login ::
  "('u \<Rightarrow> string) \<Rightarrow> (js_error \<Rightarrow> string) \<Rightarrow> 'u login_response api_response awaited \<Rightarrow> login_form
     \<Rightarrow> 'u auth_service \<Rightarrow> (js_error + 'u login_response) \<times> 'u auth_service" where
  "login stringify h outcome credentials s =
     (case login_try stringify outcome credentials s of
        Inl e \<Rightarrow> (Inl (Error (h e)), s)
      | Inr (d, s') \<Rightarrow> (Inr d, s'))"

text \<open>
  \<^verbatim>\<open>logout\<close>: the request is awaited inside \<^verbatim>\<open>try\<close>; a rejection is caught and logged; the
  \<^verbatim>\<open>finally\<close> block clears the session on both paths. The response body is not looked at.
\<close>

definition logout :: "'a awaited \<Rightarrow> 'u auth_service \<Rightarrow> (js_error + unit) \<times> 'u auth_service" where
  "logout outcome s =
     (case outcome of
        Rejected r \<Rightarrow> (Inr (), clearAuth s)
      | Resolved response \<Rightarrow> (Inr (), clearAuth s))"

text \<open>
  The refresh token that \<^verbatim>\<open>refreshToken\<close> reads and sends:
  \<^verbatim>\<open>localStorage.getItem("refreshToken") || sessionStorage.getItem("refreshToken")\<close>
\<close>

definition stored_refreshToken :: "'u auth_service \<Rightarrow> string option" where
  "stored_refreshToken s =
     js_or (getItem (localStorage s) ''refreshToken'') (getItem (sessionStorage s) ''refreshToken'')"

text \<open>
  \<^verbatim>\<open>refreshToken\<close>. \<open>refreshToken_try\<close> is the \<^verbatim>\<open>try\<close> block, \<open>refreshToken\<close> adds the
  \<^verbatim>\<open>catch\<close>, which clears the session and rethrows \<^verbatim>\<open>new Error(handleApiError(error))\<close>.
  The response carries \<^verbatim>\<open>{ token: string }\<close>, modelled by the string itself.
\<close>

definition refreshToken_try ::
  "string api_response awaited \<Rightarrow> 'u auth_service \<Rightarrow> js_error + (string \<times> 'u auth_service)" where
  "refreshToken_try outcome s =
     (let refreshToken = stored_refreshToken s
      in if \<not> truthy refreshToken then Inl (Error ''No refresh token available'')
         else
           (case outcome of
              Rejected r \<Rightarrow> Inl (Rejection r)
            | Resolved response \<Rightarrow>
                (case data response of
                   None \<Rightarrow> Inl (Error ''Token refresh failed'')
                 | Some newToken \<Rightarrow>
                     if \<not> success response then Inl (Error ''Token refresh failed'')
                     else
                       let s1 = (if truthy (getItem (localStorage s) ''authToken'')
                                 then s\<lparr> localStorage :=
                                        setItem (localStorage s) ''authToken'' newToken \<rparr>
                                 else s\<lparr> sessionStorage :=
                                        setItem (sessionStorage s) ''authToken'' newToken \<rparr>)
                       in Inr (newToken, s1\<lparr> authToken := Some newToken \<rparr>))))"

definition refreshToken ::
  "(js_error \<Rightarrow> string) \<Rightarrow> string api_response awaited \<Rightarrow> 'u auth_service
     \<Rightarrow> (js_error + string) \<times> 'u auth_service" where
  "refreshToken h outcome s =
     (case refreshToken_try outcome s of
        Inl e \<Rightarrow> (Inl (Error (h e)), clearAuth s)
      | Inr (newToken, s') \<Rightarrow> (Inr newToken, s'))"

section \<open>The auth context (hooks/useAuth.tsx)\<close>

text \<open>
  The four state variables of \<^verbatim>\<open>AuthProvider\<close>, and the derived field of the context value,
  \<^verbatim>\<open>isAuthenticated: !!user && !!token\<close>.
\<close>

record 'u auth_context =
  user :: "'u option"
  token :: "string option"
  isLoading :: bool
  error :: "string option"

definition ctx_isAuthenticated :: "'u auth_context \<Rightarrow> bool" where
  "ctx_isAuthenticated c = (user c \<noteq> None \<and> truthy (token c))"

section \<open>JavaScript numbers\<close>

text \<open>
  A \<^verbatim>\<open>number\<close> is an IEEE 754 double: a finite value, one of the two infinities, or
  \<^verbatim>\<open>NaN\<close>. A finite double is the rational it denotes; the sign of zero is not modelled.
\<close>

datatype js_number = Fin rat | PInf | NInf | NaN

text \<open>
  The result of an arithmetic operation is the exact result rounded to the nearest
  double, a tie going to the double with the even significand. For \<open>0 < x\<close>,
  \<open>floor_log2 x\<close> is the exponent \<open>e\<close> with \<open>2 powi e \<le> x < 2 powi (e + 1)\<close>. The doubles
  between these two powers are the multiples of \<open>2 powi (e - 52)\<close>, the doubles below
  \<open>2 powi (- 1022)\<close> are the multiples of \<open>2 powi (- 1074)\<close>, and what rounds to
  \<open>2 powi 1024\<close> or beyond is an infinity.
\<close>

definition floor_log2 :: "rat \<Rightarrow> int" where
  "floor_log2 x = (if 1 \<le> x then bitlen \<lfloor>x\<rfloor> - 1 else - bitlen (\<lceil>1 / x\<rceil> - 1))"

definition round_half_even :: "rat \<Rightarrow> int" where
  "round_half_even r =
     (let f = \<lfloor>r\<rfloor>; d = r - of_int f in
      if d < 1 / 2 then f
      else if 1 / 2 < d then f + 1
      else if even f then f else f + 1)"

definition round_double :: "rat \<Rightarrow> js_number" where
  "round_double x =
     (if x = 0 then Fin 0
      else
        let a = \<bar>x\<bar>;
            e = max (floor_log2 a) (- 1022);
            n = round_half_even (a / 2 powi (e - 52))
        in if 1023 < e \<or> (e = 1023 \<and> 2 ^ 53 \<le> n) then (if 0 < x then PInf else NInf)
           else Fin (sgn x * of_int n * 2 powi (e - 52)))"

text \<open>
  \<^verbatim>\<open>a / b\<close>. Division by zero is written out, since HOL's own \<open>x / 0 = 0\<close> is not what
  the code computes.
\<close>

fun js_div :: "js_number \<Rightarrow> js_number \<Rightarrow> js_number" where
  "js_div (Fin a) (Fin b) =
     (if b = 0 then (if a = 0 then NaN else if 0 < a then PInf else NInf)
      else round_double (a / b))"
| "js_div (Fin a) PInf = Fin 0"
| "js_div (Fin a) NInf = Fin 0"
| "js_div PInf (Fin b) = (if b < 0 then NInf else PInf)"
| "js_div NInf (Fin b) = (if b < 0 then PInf else NInf)"
| "js_div _ _ = NaN"

text \<open>\<^verbatim>\<open>Math.ceil\<close>: the ceiling of a double is a double, so nothing is rounded.\<close>

fun js_ceil :: "js_number \<Rightarrow> js_number" where
  "js_ceil (Fin a) = Fin (of_int \<lceil>a\<rceil>)"
| "js_ceil n = n"

text \<open>\<^verbatim>\<open>a < b\<close> on numbers: false as soon as one side is \<^verbatim>\<open>NaN\<close>.\<close>

fun js_lt :: "js_number \<Rightarrow> js_number \<Rightarrow> bool" where
  "js_lt (Fin a) (Fin b) = (a < b)"
| "js_lt (Fin a) PInf = True"
| "js_lt NInf (Fin b) = True"
| "js_lt NInf PInf = True"
| "js_lt _ _ = False"

section \<open>Token expiry (AuthService.isTokenExpired)\<close>

text \<open>
  \<^verbatim>\<open>tokenToCheck.split(".")\<close>: the pieces between the dots, at least one piece.
\<close>

fun split_on :: "char \<Rightarrow> string \<Rightarrow> string list" where
  "split_on c [] = [[]]"
| "split_on c (x # xs) =
     (if x = c then [] # split_on c xs
      else (case split_on c xs of [] \<Rightarrow> [[x]] | w # ws \<Rightarrow> (x # w) # ws))"

text \<open>
  \<^verbatim>\<open>[1]\<close> of that array: \<^verbatim>\<open>undefined\<close> (\<open>None\<close>) when the token has no dot.
\<close>

definition second_segment :: "string \<Rightarrow> string option" where
  "second_segment t = (case split_on (CHR ''.'') t of a # b # rest \<Rightarrow> Some b | _ \<Rightarrow> None)"

text \<open>
  \<^verbatim>\<open>atob\<close> is the browser's forgiving base64 decoder: ASCII whitespace is dropped, one or
  two closing \<^verbatim>\<open>=\<close> are dropped when the length is a multiple of four, a length of
  \<open>4k + 1\<close> or a character outside the alphabet throws (\<open>None\<close>), and the bits left over
  after the last whole byte are discarded.
\<close>

definition is_ascii_whitespace :: "char \<Rightarrow> bool" where
  "is_ascii_whitespace c =
     (c = CHR 0x09 \<or> c = CHR 0x0A \<or> c = CHR 0x0C \<or> c = CHR 0x0D \<or> c = CHR 0x20)"

definition b64_value :: "char \<Rightarrow> nat option" where
  "b64_value c =
     (let n = (of_char c :: nat) in
      if 65 \<le> n \<and> n \<le> 90 then Some (n - 65)
      else if 97 \<le> n \<and> n \<le> 122 then Some (n - 71)
      else if 48 \<le> n \<and> n \<le> 57 then Some (n + 4)
      else if n = 43 then Some 62
      else if n = 47 then Some 63
      else None)"

fun b64_bytes :: "nat list \<Rightarrow> string" where
  "b64_bytes (a # b # c # d # rest) =
     char_of (a * 4 + b div 16) # char_of ((b mod 16) * 16 + c div 4)
       # char_of ((c mod 4) * 64 + d) # b64_bytes rest"
| "b64_bytes [a, b, c] = [char_of (a * 4 + b div 16), char_of ((b mod 16) * 16 + c div 4)]"
| "b64_bytes [a, b] = [char_of (a * 4 + b div 16)]"
| "b64_bytes _ = []"

definition strip_padding :: "string \<Rightarrow> string" where
  "strip_padding d =
     (if length d mod 4 = 0 \<and> d \<noteq> [] \<and> last d = CHR ''=''
      then (if butlast d \<noteq> [] \<and> last (butlast d) = CHR ''=''
            then butlast (butlast d) else butlast d)
      else d)"

definition atob :: "string \<Rightarrow> string option" where
  "atob s =
     (let d = strip_padding (filter (\<lambda>c. \<not> is_ascii_whitespace c) s) in
      if length d mod 4 = 1 then None
      else if list_all (\<lambda>c. b64_value c \<noteq> None) d
           then Some (b64_bytes (map (\<lambda>c. the (b64_value c)) d))
           else None)"

text \<open>
  What \<^verbatim>\<open>JSON.parse\<close> returns. The parser itself is a parameter \<open>parse\<close> of the functions
  below (\<open>None\<close> when it throws \<^verbatim>\<open>SyntaxError\<close>).
\<close>

datatype json =
    JNull
  | JBool bool
  | JNum js_number
  | JStr string
  | JArr "json list"
  | JObj "(string \<times> json) list"

text \<open>
  The text \<^verbatim>\<open>atob\<close> works on: it turns its argument into a string first, so a missing
  segment is decoded as the text \<^verbatim>\<open>undefined\<close>.
\<close>

definition segment_text :: "string \<Rightarrow> string" where
  "segment_text t = (case second_segment t of None \<Rightarrow> ''undefined'' | Some b \<Rightarrow> b)"

text \<open>
  \<^verbatim>\<open>JSON.parse(atob(tokenToCheck.split(".")[1]))\<close>; \<open>None\<close> when one of the two calls
  throws.
\<close>

definition decode_payload :: "(string \<Rightarrow> json option) \<Rightarrow> string \<Rightarrow> json option" where
  "decode_payload parse t =
     (case atob (segment_text t) of
        None \<Rightarrow> None
      | Some decoded \<Rightarrow> parse decoded)"

text \<open>
  \<^verbatim>\<open>payload.exp\<close>: a \<^verbatim>\<open>TypeError\<close> on \<^verbatim>\<open>null\<close>, the member of an object when it has one,
  \<^verbatim>\<open>undefined\<close> (\<open>None\<close>) in every other case.
\<close>

fun get_exp :: "json \<Rightarrow> js_error + json option" where
  "get_exp JNull = Inl (Error ''Cannot read properties of null'')"
| "get_exp (JObj members) = Inr (map_of members ''exp'')"
| "get_exp _ = Inr None"

text \<open>
  The conversion to a number that \<^verbatim>\<open><\<close> applies to its left operand. Strings, arrays
  and objects go through the parameter \<open>coerce\<close>.
\<close>

fun toNumber :: "(json \<Rightarrow> js_number) \<Rightarrow> json option \<Rightarrow> js_number" where
  "toNumber coerce None = NaN"
| "toNumber coerce (Some JNull) = Fin 0"
| "toNumber coerce (Some (JBool b)) = Fin (if b then 1 else 0)"
| "toNumber coerce (Some (JNum n)) = n"
| "toNumber coerce (Some v) = coerce v"

text \<open>
  \<open>isTokenExpired parse coerce nowMs tokenArg authTok\<close>: \<open>nowMs\<close> is \<^verbatim>\<open>Date.now()\<close>,
  \<open>tokenArg\<close> the optional argument \<^verbatim>\<open>token\<close>, \<open>authTok\<close> the field \<^verbatim>\<open>this.authToken\<close>.
  \<^verbatim>\<open>currentTime\<close> is the double \<^verbatim>\<open>Date.now() / 1000\<close>.
\<close>

definition isTokenExpired ::
  "(string \<Rightarrow> json option) \<Rightarrow> (json \<Rightarrow> js_number) \<Rightarrow> int \<Rightarrow> string option \<Rightarrow> string option
     \<Rightarrow> bool" where
  "isTokenExpired parse coerce nowMs tokenArg authTok =
     (let tokenToCheck = js_or tokenArg authTok in
      if \<not> truthy tokenToCheck then True
      else
        (case decode_payload parse (the tokenToCheck) of
           None \<Rightarrow> True
         | Some payload \<Rightarrow>
             (let currentTime = js_div (Fin (of_int nowMs)) (Fin 1000) in
              case get_exp payload of
                Inl e \<Rightarrow> True
              | Inr v \<Rightarrow> js_lt (toNumber coerce v) currentTime)))"

section \<open>List screens\<close>

text \<open>
  Every entity shown in a list has an \<^verbatim>\<open>id\<close>; the rest of its fields is the extension of
  the record.
\<close>

record entity =
  ident :: string

text \<open>
  \<^verbatim>\<open>PaginatedResponse<T>\<close> of types/customTypes.ts, which \<^verbatim>\<open>getCustomers\<close>,
  \<^verbatim>\<open>getPayments\<close> and \<^verbatim>\<open>getReviews\<close> resolve with.
\<close>

record 'item paginated_response =
  pr_data :: "'item list"
  pr_total :: js_number
  pr_limit :: js_number
  pr_page :: js_number
  pr_totalPages :: js_number

text \<open>
  A filter object (\<^verbatim>\<open>CustomerFilter\<close>, \<^verbatim>\<open>PaymentFilter\<close>) maps field names to values; a
  field can be present with the value \<^verbatim>\<open>undefined\<close>. The spread
  \<^verbatim>\<open>{ ...filters, ...newFilters }\<close> is \<open>filters ++ newFilters\<close>.
\<close>

datatype filter_value = FUndefined | FStr string | FNum js_number

type_synonym filter_params = "string \<rightharpoonup> filter_value"

text \<open>
  The requests a screen sends, in the order it sends them: a page of the list with the
  arguments of the service call (page, limit, filters), or the statistics of the
  resource. The log is the only part of a screen's model that is not a state variable
  of the component.
\<close>

datatype 'f request = ListRequest int int 'f | StatisticsRequest

record 'item list_screen =
  items :: "'item list"
  loading :: bool
  fetchError :: "string option"
  page :: int
  totalPages :: js_number
  filters :: filter_params
  searchTerm :: string
  requests :: "filter_params request list"

subsection \<open>Customers (pages/pelanggan.tsx)\<close>

text \<open>
  \<^verbatim>\<open>fetchCustomers\<close> up to its \<^verbatim>\<open>await\<close>, and from the arrival of the answer on.
\<close>

definition fetchCustomers_start :: "'item list_screen \<Rightarrow> 'item list_screen" where
  "fetchCustomers_start s =
     s\<lparr> loading := True,
        requests := requests s
          @ [ListRequest (page s) 10 ((filters s)(''search'' \<mapsto> FStr (searchTerm s)))] \<rparr>"

definition fetchCustomers_finish ::
  "'item paginated_response awaited \<Rightarrow> 'item list_screen \<Rightarrow> 'item list_screen" where
  "fetchCustomers_finish outcome s =
     (case outcome of
        Resolved response \<Rightarrow>
          s\<lparr> items := pr_data response,
             totalPages := js_ceil (js_div (pr_total response) (pr_limit response)),
             loading := False,
             fetchError := None \<rparr>
      | Rejected r \<Rightarrow>
          s\<lparr> fetchError := Some ''Failed to fetch customer data'', loading := False \<rparr>)"

text \<open>
  The effect of the component: \<^verbatim>\<open>fetchCustomers(); fetchStatistics();\<close>
\<close>

definition customers_effect :: "'item list_screen \<Rightarrow> 'item list_screen" where
  "customers_effect s =
     (let s1 = fetchCustomers_start s in s1\<lparr> requests := requests s1 @ [StatisticsRequest] \<rparr>)"

text \<open>
  The state updates of one event handler are applied together in one render. After it
  the effect runs if one of its dependencies changed: \<^verbatim>\<open>fetchCustomers\<close> is a new function
  when \<^verbatim>\<open>page\<close>, \<^verbatim>\<open>filters\<close> or \<^verbatim>\<open>searchTerm\<close> differs from the render before. Numbers and
  strings are compared by value, the filter object by identity: \<open>newFiltersObject\<close> says
  that the handler called \<^verbatim>\<open>setFilters\<close> with an object it built.
\<close>

definition customers_rerender ::
  "bool \<Rightarrow> 'item list_screen \<Rightarrow> 'item list_screen \<Rightarrow> 'item list_screen" where
  "customers_rerender newFiltersObject before after =
     (if newFiltersObject \<or> page after \<noteq> page before \<or> searchTerm after \<noteq> searchTerm before
      then customers_effect after
      else after)"

text \<open>
  \<^verbatim>\<open>handleFilterChange\<close>: \<^verbatim>\<open>setFilters({ ...filters, ...newFilters }); setPage(1);\<close>
\<close>

definition handleFilterChange_customers ::
  "filter_params \<Rightarrow> 'item list_screen \<Rightarrow> 'item list_screen" where
  "handleFilterChange_customers newFilters s =
     customers_rerender True s (s\<lparr> filters := filters s ++ newFilters, page := 1 \<rparr>)"


subsection \<open>Payments (the Pembayaran page)\<close>

definition fetchPayments_start :: "'item list_screen \<Rightarrow> 'item list_screen" where
  "fetchPayments_start s =
     s\<lparr> loading := True, requests := requests s @ [ListRequest (page s) 10 (filters s)] \<rparr>"

definition fetchPayments_finish ::
  "'item paginated_response awaited \<Rightarrow> 'item list_screen \<Rightarrow> 'item list_screen" where
  "fetchPayments_finish outcome s =
     (case outcome of
        Resolved response \<Rightarrow>
          s\<lparr> items := pr_data response,
             totalPages := js_ceil (js_div (pr_total response) (pr_limit response)),
             loading := False,
             fetchError := None \<rparr>
      | Rejected r \<Rightarrow>
          s\<lparr> fetchError := Some ''Failed to fetch payments data'', loading := False \<rparr>)"

text \<open>
  The effect of this page is \<^verbatim>\<open>fetchPayments()\<close>, and \<^verbatim>\<open>fetchPayments\<close> depends on \<^verbatim>\<open>page\<close>
  and \<^verbatim>\<open>filters\<close>.
\<close>

definition payments_rerender ::
  "bool \<Rightarrow> 'item list_screen \<Rightarrow> 'item list_screen \<Rightarrow> 'item list_screen" where
  "payments_rerender newFiltersObject before after =
     (if newFiltersObject \<or> page after \<noteq> page before then fetchPayments_start after else after)"

definition handleFilterChange_payments ::
  "filter_params \<Rightarrow> 'item list_screen \<Rightarrow> 'item list_screen" where
  "handleFilterChange_payments newFilters s =
     payments_rerender True s (s\<lparr> filters := filters s ++ newFilters, page := 1 \<rparr>)"

subsection \<open>Reviews (pages/ulasan rating.tsx)\<close>

definition fetchReviews_start :: "'item list_screen \<Rightarrow> 'item list_screen" where
  "fetchReviews_start s =
     s\<lparr> loading := True, requests := requests s @ [ListRequest (page s) 10 (filters s)] \<rparr>"

definition fetchReviews_finish ::
  "'item paginated_response awaited \<Rightarrow> 'item list_screen \<Rightarrow> 'item list_screen" where
  "fetchReviews_finish outcome s =
     (case outcome of
        Resolved response \<Rightarrow>
          s\<lparr> items := pr_data response,
             totalPages := js_ceil (js_div (pr_total response) (pr_limit response)),
             loading := False,
             fetchError := None \<rparr>
      | Rejected r \<Rightarrow>
          s\<lparr> fetchError := Some ''Failed to fetch reviews data'', loading := False \<rparr>)"

text \<open>
  The effect of this page is \<^verbatim>\<open>fetchReviews(); fetchStatistics();\<close>, and \<^verbatim>\<open>fetchReviews\<close>
  depends on \<^verbatim>\<open>page\<close> and \<^verbatim>\<open>filters\<close>.
\<close>

definition reviews_effect :: "'item list_screen \<Rightarrow> 'item list_screen" where
  "reviews_effect s =
     (let s1 = fetchReviews_start s in s1\<lparr> requests := requests s1 @ [StatisticsRequest] \<rparr>)"

definition reviews_rerender ::
  "bool \<Rightarrow> 'item list_screen \<Rightarrow> 'item list_screen \<Rightarrow> 'item list_screen" where
  "reviews_rerender newFiltersObject before after =
     (if newFiltersObject \<or> page after \<noteq> page before then reviews_effect after else after)"

definition handleFilterChange_reviews ::
  "filter_params \<Rightarrow> 'item list_screen \<Rightarrow> 'item list_screen" where
  "handleFilterChange_reviews newFilters s =
     reviews_rerender True s (s\<lparr> filters := filters s ++ newFilters, page := 1 \<rparr>)"

subsection \<open>Bookings (pages/BookingManagement.tsx)\<close>

text \<open>
  The bookings screen keeps its paging in one object and its filters in a record of four
  fields. \<^verbatim>\<open>bookingService.getBookings\<close> resolves with the list and a \<^verbatim>\<open>meta\<close> object.
\<close>

record pagination_state =
  pagination_page :: int
  pagination_limit :: int
  pagination_total :: js_number
  pagination_totalPages :: js_number

record booking_filters =
  status :: "string list"
  search :: string
  dateFrom :: string
  dateTo :: string

record response_meta =
  meta_total :: js_number
  meta_totalPages :: js_number

record 'item booking_response =
  br_data :: "'item list"
  br_meta :: response_meta

record 'item booking_screen =
  bookings :: "'item list"
  bk_loading :: bool
  bk_error :: "string option"
  pagination :: pagination_state
  bk_filters :: booking_filters
  selectedBooking :: "'item option"
  showStatusModal :: bool
  showDetailsModal :: bool
  showDeleteModal :: bool
  actionLoading :: bool
  bk_requests :: "booking_filters request list"

text \<open>
  \<^verbatim>\<open>loadBookings\<close> up to its \<^verbatim>\<open>await\<close>, and from the arrival of the answer on. A rejection
  carries the message of the thrown \<^verbatim>\<open>Error\<close>.
\<close>

definition loadBookings_start :: "'item booking_screen \<Rightarrow> 'item booking_screen" where
  "loadBookings_start s =
     s\<lparr> bk_loading := True,
        bk_error := None,
        bk_requests := bk_requests s
          @ [ListRequest (pagination_page (pagination s)) (pagination_limit (pagination s))
               (bk_filters s)] \<rparr>"

definition loadBookings_finish ::
  "'item booking_response awaited \<Rightarrow> 'item booking_screen \<Rightarrow> 'item booking_screen" where
  "loadBookings_finish outcome s =
     (case outcome of
        Resolved response \<Rightarrow>
          s\<lparr> bookings := br_data response,
             pagination := (pagination s)
               \<lparr> pagination_total := meta_total (br_meta response),
                 pagination_totalPages := meta_totalPages (br_meta response) \<rparr>,
             bk_loading := False \<rparr>
      | Rejected m \<Rightarrow> s\<lparr> bk_error := Some m, bk_loading := False \<rparr>)"

text \<open>
  The effect of this page is \<^verbatim>\<open>loadBookings()\<close>, with the dependencies
  \<^verbatim>\<open>[pagination.page, filters]\<close>.
\<close>

definition bookings_rerender ::
  "bool \<Rightarrow> 'item booking_screen \<Rightarrow> 'item booking_screen \<Rightarrow> 'item booking_screen" where
  "bookings_rerender newFiltersObject before after =
     (if newFiltersObject
         \<or> pagination_page (pagination after) \<noteq> pagination_page (pagination before)
      then loadBookings_start after
      else after)"

text \<open>
  The four filter controls: each \<^verbatim>\<open>onChange\<close> is
  \<^verbatim>\<open>setFilters((prev) => ({ ...prev, field: value }))\<close> and nothing else. The argument is
  \<^verbatim>\<open>e.target.value\<close>.
\<close>

definition onChange_search :: "string \<Rightarrow> 'item booking_screen \<Rightarrow> 'item booking_screen" where
  "onChange_search v s =
     bookings_rerender True s (s\<lparr> bk_filters := (bk_filters s)\<lparr> search := v \<rparr> \<rparr>)"

definition onChange_status :: "string \<Rightarrow> 'item booking_screen \<Rightarrow> 'item booking_screen" where
  "onChange_status v s =
     bookings_rerender True s
       (s\<lparr> bk_filters := (bk_filters s)\<lparr> status := (if v \<noteq> [] then [v] else []) \<rparr> \<rparr>)"

definition onChange_dateFrom :: "string \<Rightarrow> 'item booking_screen \<Rightarrow> 'item booking_screen" where
  "onChange_dateFrom v s =
     bookings_rerender True s (s\<lparr> bk_filters := (bk_filters s)\<lparr> dateFrom := v \<rparr> \<rparr>)"

definition onChange_dateTo :: "string \<Rightarrow> 'item booking_screen \<Rightarrow> 'item booking_screen" where
  "onChange_dateTo v s =
     bookings_rerender True s (s\<lparr> bk_filters := (bk_filters s)\<lparr> dateTo := v \<rparr> \<rparr>)"

text \<open>The \<^verbatim>\<open>Reset Filter\<close> button.\<close>

definition onClick_resetFilter :: "'item booking_screen \<Rightarrow> 'item booking_screen" where
  "onClick_resetFilter s =
     bookings_rerender True s
       (s\<lparr> bk_filters := \<lparr> status = [], search = [], dateFrom = [], dateTo = [] \<rparr>,
          pagination := (pagination s)\<lparr> pagination_page := 1 \<rparr> \<rparr>)"


section \<open>Properties of the session manager and the auth context\<close>

lemma storage_simps:
  "getItem (setItem st k v) k' = (if k' = k then Some v else getItem st k')"
  "getItem (removeItem st k) k' = (if k' = k then None else getItem st k')"
  by (simp_all add: getItem_def setItem_def removeItem_def)

lemma truthy_simps:
  "truthy None = False"
  "truthy (Some t) = (t \<noteq> [])"
  by (simp_all add: truthy_def)

lemma clearAuth_simps:
  "currentUser (clearAuth s) = None"
  "authToken (clearAuth s) = None"
  "getItem (localStorage (clearAuth s)) k =
     (if k \<in> {''authToken'', ''refreshToken'', ''user''} then None else getItem (localStorage s) k)"
  "getItem (sessionStorage (clearAuth s)) k =
     (if k \<in> {''authToken'', ''refreshToken''} then None else getItem (sessionStorage s) k)"
  by (simp_all add: clearAuth_def storage_simps)

text \<open>
  C1, as stated: \<^verbatim>\<open>isAuthenticated\<close> is true if and only if both the user and the token are
  present. It fails on a session whose token is present and empty, as \<^verbatim>\<open>login\<close> leaves it
  when the server answers with an empty token: the user and the token are both there
  (neither is \<^verbatim>\<open>null\<close>), and \<^verbatim>\<open>!!(this.authToken && this.currentUser)\<close> is false, because
  the empty string is falsy.
\<close>

theorem C1_empty_token_counterexample:
  "snd (login (\<lambda>u. u) (\<lambda>e. ''failed'')
      (Resolved \<lparr> success = True,
                  data = Some \<lparr> resp_user = ''admin'', resp_token = '''', resp_refreshToken = ''ref'' \<rparr>,
                  message = None \<rparr>)
      \<lparr> email = ''admin@example.com'', password = ''password123'', remember = False \<rparr>
      \<lparr> currentUser = None, authToken = None,
        localStorage = Map.empty, sessionStorage = Map.empty \<rparr>)
     = \<lparr> currentUser = Some ''admin'', authToken = Some '''',
         localStorage = [''user'' \<mapsto> ''admin''],
         sessionStorage = [''authToken'' \<mapsto> '''', ''refreshToken'' \<mapsto> ''ref''] \<rparr>
   \<and> currentUser \<lparr> currentUser = Some ''admin'', authToken = Some '''',
         localStorage = [''user'' \<mapsto> ''admin''],
         sessionStorage = [''authToken'' \<mapsto> '''', ''refreshToken'' \<mapsto> ''ref''] \<rparr> \<noteq> None
   \<and> authToken \<lparr> currentUser = Some ''admin'', authToken = Some '''',
         localStorage = [''user'' \<mapsto> ''admin''],
         sessionStorage = [''authToken'' \<mapsto> '''', ''refreshToken'' \<mapsto> ''ref''] \<rparr> \<noteq> None
   \<and> \<not> isAuthenticated \<lparr> currentUser = Some ''admin'', authToken = Some '''',
         localStorage = [''user'' \<mapsto> ''admin''],
         sessionStorage = [''authToken'' \<mapsto> '''', ''refreshToken'' \<mapsto> ''ref''] \<rparr>"
  by (simp add: login_def login_try_def setItem_def isAuthenticated_def truthy_simps)

text \<open>
  C1, amended: for every state of the session manager and of the auth context,
  \<^verbatim>\<open>isAuthenticated\<close> is true if and only if the user is present and the token is present
  and not the empty string; whenever the user or the token is absent, it is false.
\<close>

theorem C1_isAuthenticated_iff:
  "(isAuthenticated s \<longleftrightarrow> currentUser s \<noteq> None \<and> (\<exists>t. authToken s = Some t \<and> t \<noteq> []))
   \<and> (ctx_isAuthenticated c \<longleftrightarrow> user c \<noteq> None \<and> (\<exists>t. token c = Some t \<and> t \<noteq> []))
   \<and> (currentUser s = None \<or> authToken s = None \<longrightarrow> \<not> isAuthenticated s)
   \<and> (user c = None \<or> token c = None \<longrightarrow> \<not> ctx_isAuthenticated c)"
  by (auto simp: isAuthenticated_def ctx_isAuthenticated_def truthy_def split: option.splits)

theorem C1_isAuthenticated_iff_witness:
  "isAuthenticated \<lparr> currentUser = Some (), authToken = Some ''t'',
                     localStorage = Map.empty, sessionStorage = Map.empty \<rparr>
   \<and> ctx_isAuthenticated \<lparr> user = Some (), token = Some ''t'', isLoading = False, error = None \<rparr>
   \<and> \<not> isAuthenticated \<lparr> currentUser = (None :: unit option), authToken = Some ''t'',
                           localStorage = Map.empty, sessionStorage = Map.empty \<rparr>
   \<and> \<not> ctx_isAuthenticated \<lparr> user = Some (), token = None, isLoading = False, error = None \<rparr>"
  using
    C1_isAuthenticated_iff
      [of "\<lparr> currentUser = Some (), authToken = Some ''t'',
            localStorage = Map.empty, sessionStorage = Map.empty \<rparr>"
          "\<lparr> user = Some (), token = Some ''t'', isLoading = False, error = None \<rparr>"]
    C1_isAuthenticated_iff
      [of "\<lparr> currentUser = (None :: unit option), authToken = Some ''t'',
            localStorage = Map.empty, sessionStorage = Map.empty \<rparr>"
          "\<lparr> user = Some (), token = None, isLoading = False, error = None \<rparr>"]
  by simp

text \<open>
  C2: whatever the two stores and the fields hold and however the logout request ends,
  \<^verbatim>\<open>logout()\<close> resolves, and afterwards neither store holds \<^verbatim>\<open>authToken\<close> or
  \<^verbatim>\<open>refreshToken\<close> and the user and the token in memory are cleared.
\<close>

theorem C2_logout_clears:
  "fst (logout outcome s) = Inr ()
   \<and> getItem (localStorage (snd (logout outcome s))) ''authToken'' = None
   \<and> getItem (localStorage (snd (logout outcome s))) ''refreshToken'' = None
   \<and> getItem (sessionStorage (snd (logout outcome s))) ''authToken'' = None
   \<and> getItem (sessionStorage (snd (logout outcome s))) ''refreshToken'' = None
   \<and> currentUser (snd (logout outcome s)) = None
   \<and> authToken (snd (logout outcome s)) = None"
  by (cases outcome) (simp_all add: logout_def clearAuth_simps)

text \<open>
  C3: a login whose request resolves with \<^verbatim>\<open>success\<close> and data resolves with that data.
  With \<^verbatim>\<open>remember\<close> set, the token and the refresh token are written to \<^verbatim>\<open>localStorage\<close>
  and \<^verbatim>\<open>sessionStorage\<close> is left as it was; without it they are written to
  \<^verbatim>\<open>sessionStorage\<close>, and \<^verbatim>\<open>localStorage\<close> changes at the key \<^verbatim>\<open>user\<close> only. In both cases
  the serialised user is written to \<^verbatim>\<open>localStorage\<close>.
\<close>

theorem C3_login_persists:
  assumes "outcome = Resolved response" and "success response" and "data response = Some d"
  shows "fst (login stringify h outcome credentials s) = Inr d
    \<and> (remember credentials \<longrightarrow>
          getItem (localStorage (snd (login stringify h outcome credentials s))) ''authToken''
            = Some (resp_token d)
        \<and> getItem (localStorage (snd (login stringify h outcome credentials s))) ''refreshToken''
            = Some (resp_refreshToken d)
        \<and> sessionStorage (snd (login stringify h outcome credentials s)) = sessionStorage s)
    \<and> (\<not> remember credentials \<longrightarrow>
          getItem (sessionStorage (snd (login stringify h outcome credentials s))) ''authToken''
            = Some (resp_token d)
        \<and> getItem (sessionStorage (snd (login stringify h outcome credentials s))) ''refreshToken''
            = Some (resp_refreshToken d)
        \<and> (\<forall>k. k \<noteq> ''user'' \<longrightarrow>
              getItem (localStorage (snd (login stringify h outcome credentials s))) k
                = getItem (localStorage s) k))
    \<and> getItem (localStorage (snd (login stringify h outcome credentials s))) ''user''
          = Some (stringify (resp_user d))"
  using assms by (simp add: login_def login_try_def Let_def storage_simps)

theorem C3_login_persists_witness:
  "getItem (localStorage (snd (login (\<lambda>u. u) (\<lambda>e. ''failed'')
      (Resolved \<lparr> success = True,
                  data = Some \<lparr> resp_user = ''admin'', resp_token = ''tok'', resp_refreshToken = ''ref'' \<rparr>,
                  message = None \<rparr>)
      \<lparr> email = ''admin@example.com'', password = ''password123'', remember = True \<rparr>
      \<lparr> currentUser = None, authToken = None,
        localStorage = Map.empty, sessionStorage = Map.empty \<rparr>))) ''authToken'' = Some ''tok''
   \<and> getItem (sessionStorage (snd (login (\<lambda>u. u) (\<lambda>e. ''failed'')
      (Resolved \<lparr> success = True,
                  data = Some \<lparr> resp_user = ''admin'', resp_token = ''tok'', resp_refreshToken = ''ref'' \<rparr>,
                  message = None \<rparr>)
      \<lparr> email = ''admin@example.com'', password = ''password123'', remember = False \<rparr>
      \<lparr> currentUser = None, authToken = None,
        localStorage = Map.empty, sessionStorage = Map.empty \<rparr>))) ''authToken'' = Some ''tok''
   \<and> getItem (localStorage (snd (login (\<lambda>u. u) (\<lambda>e. ''failed'')
      (Resolved \<lparr> success = True,
                  data = Some \<lparr> resp_user = ''admin'', resp_token = ''tok'', resp_refreshToken = ''ref'' \<rparr>,
                  message = None \<rparr>)
      \<lparr> email = ''admin@example.com'', password = ''password123'', remember = False \<rparr>
      \<lparr> currentUser = None, authToken = None,
        localStorage = Map.empty, sessionStorage = Map.empty \<rparr>))) ''authToken'' = None"
proof -
  let ?d = "\<lparr> resp_user = ''admin'', resp_token = ''tok'', resp_refreshToken = ''ref'' \<rparr>"
  let ?r = "\<lparr> success = True, data = Some ?d, message = None \<rparr>"
  let ?s = "\<lparr> currentUser = None, authToken = None,
              localStorage = Map.empty, sessionStorage = Map.empty \<rparr> :: string auth_service"
  have r: "success ?r" "data ?r = Some ?d" by simp_all
  have e: "getItem (localStorage ?s) ''authToken'' = None" by (simp add: getItem_def)
  note yes = C3_login_persists [OF refl r, of "\<lambda>u. u" "\<lambda>e. ''failed''"
      "\<lparr> email = ''admin@example.com'', password = ''password123'', remember = True \<rparr>" ?s]
  note no = C3_login_persists [OF refl r, of "\<lambda>u. u" "\<lambda>e. ''failed''"
      "\<lparr> email = ''admin@example.com'', password = ''password123'', remember = False \<rparr>" ?s]
  show ?thesis using yes no e by simp
qed


lemma refreshToken_try_cases:
  "refreshToken_try outcome s =
     (if \<not> truthy (getItem (localStorage s) ''refreshToken'')
         \<and> \<not> truthy (getItem (sessionStorage s) ''refreshToken'')
      then Inl (Error ''No refresh token available'')
      else case outcome of
             Rejected r \<Rightarrow> Inl (Rejection r)
           | Resolved response \<Rightarrow>
               if data response = None \<or> \<not> success response
               then Inl (Error ''Token refresh failed'')
               else Inr (the (data response),
                         (if truthy (getItem (localStorage s) ''authToken'')
                          then s\<lparr> localStorage :=
                                 setItem (localStorage s) ''authToken'' (the (data response)) \<rparr>
                          else s\<lparr> sessionStorage :=
                                 setItem (sessionStorage s) ''authToken'' (the (data response)) \<rparr>)
                           \<lparr> authToken := Some (the (data response)) \<rparr>))"
  by (auto simp: refreshToken_try_def stored_refreshToken_def js_or_def Let_def
      split: awaited.splits option.splits)

text \<open>
  C4, as stated: when a refresh token is stored in exactly one place, a successful
  \<^verbatim>\<open>refreshToken()\<close> writes the new token to the place the refresh token was read from.
  It fails when the auth token is not kept beside the refresh token: here the refresh
  token is read from \<^verbatim>\<open>localStorage\<close>, the only place that has one, and the new token is
  written to \<^verbatim>\<open>sessionStorage\<close>, where the old auth token is.
\<close>

theorem C4_other_store_counterexample:
  "getItem (localStorage \<lparr> currentUser = Some (), authToken = Some ''a'',
              localStorage = [''refreshToken'' \<mapsto> ''r''],
              sessionStorage = [''authToken'' \<mapsto> ''a''] \<rparr>) ''refreshToken'' = Some ''r''
   \<and> getItem (sessionStorage \<lparr> currentUser = Some (), authToken = Some ''a'',
              localStorage = [''refreshToken'' \<mapsto> ''r''],
              sessionStorage = [''authToken'' \<mapsto> ''a''] \<rparr>) ''refreshToken'' = None
   \<and> fst (refreshToken (\<lambda>e. ''failed'')
            (Resolved \<lparr> success = True, data = Some ''n'', message = None \<rparr>)
            \<lparr> currentUser = Some (), authToken = Some ''a'',
              localStorage = [''refreshToken'' \<mapsto> ''r''],
              sessionStorage = [''authToken'' \<mapsto> ''a''] \<rparr>) = Inr ''n''
   \<and> getItem (localStorage (snd (refreshToken (\<lambda>e. ''failed'')
            (Resolved \<lparr> success = True, data = Some ''n'', message = None \<rparr>)
            \<lparr> currentUser = Some (), authToken = Some ''a'',
              localStorage = [''refreshToken'' \<mapsto> ''r''],
              sessionStorage = [''authToken'' \<mapsto> ''a''] \<rparr>))) ''authToken'' = None
   \<and> getItem (sessionStorage (snd (refreshToken (\<lambda>e. ''failed'')
            (Resolved \<lparr> success = True, data = Some ''n'', message = None \<rparr>)
            \<lparr> currentUser = Some (), authToken = Some ''a'',
              localStorage = [''refreshToken'' \<mapsto> ''r''],
              sessionStorage = [''authToken'' \<mapsto> ''a''] \<rparr>))) ''authToken'' = Some ''n''"
  by (simp add: refreshToken_def refreshToken_try_def stored_refreshToken_def js_or_def
      truthy_simps getItem_def setItem_def)

text \<open>
  C4, amended: when a non-empty refresh token is stored (\<^verbatim>\<open>localStorage\<close> is looked at
  first), a successful \<^verbatim>\<open>refreshToken()\<close> resolves with the new token and writes it to
  the place of the old auth token: to \<^verbatim>\<open>localStorage\<close> when that holds a non-empty
  \<^verbatim>\<open>authToken\<close>, to \<^verbatim>\<open>sessionStorage\<close> otherwise, the other store being left as it was.
  This is the place the refresh token was read from whenever \<^verbatim>\<open>localStorage\<close> holds both
  or neither of the two tokens.
\<close>

theorem C4_refreshToken_target:
  assumes "truthy (stored_refreshToken s)"
    and "outcome = Resolved response" and "success response" and "data response = Some newToken"
  shows "stored_refreshToken s
      = (if truthy (getItem (localStorage s) ''refreshToken'')
         then getItem (localStorage s) ''refreshToken''
         else getItem (sessionStorage s) ''refreshToken'')
    \<and> fst (refreshToken h outcome s) = Inr newToken
    \<and> authToken (snd (refreshToken h outcome s)) = Some newToken
    \<and> (truthy (getItem (localStorage s) ''authToken'') \<longrightarrow>
          localStorage (snd (refreshToken h outcome s))
            = setItem (localStorage s) ''authToken'' newToken
        \<and> sessionStorage (snd (refreshToken h outcome s)) = sessionStorage s)
    \<and> (\<not> truthy (getItem (localStorage s) ''authToken'') \<longrightarrow>
          sessionStorage (snd (refreshToken h outcome s))
            = setItem (sessionStorage s) ''authToken'' newToken
        \<and> localStorage (snd (refreshToken h outcome s)) = localStorage s)
    \<and> (truthy (getItem (localStorage s) ''refreshToken'')
        \<and> truthy (getItem (localStorage s) ''authToken'') \<longrightarrow>
          getItem (localStorage (snd (refreshToken h outcome s))) ''authToken'' = Some newToken)
    \<and> (\<not> truthy (getItem (localStorage s) ''refreshToken'')
        \<and> \<not> truthy (getItem (localStorage s) ''authToken'') \<longrightarrow>
          getItem (sessionStorage (snd (refreshToken h outcome s))) ''authToken'' = Some newToken)"
proof -
  have "stored_refreshToken s
      = (if truthy (getItem (localStorage s) ''refreshToken'')
         then getItem (localStorage s) ''refreshToken''
         else getItem (sessionStorage s) ''refreshToken'')"
    by (simp add: stored_refreshToken_def js_or_def)
  moreover have "refreshToken_try outcome s
      = Inr (newToken,
             (if truthy (getItem (localStorage s) ''authToken'')
              then s\<lparr> localStorage := setItem (localStorage s) ''authToken'' newToken \<rparr>
              else s\<lparr> sessionStorage := setItem (sessionStorage s) ''authToken'' newToken \<rparr>)
               \<lparr> authToken := Some newToken \<rparr>)"
    using assms by (simp add: refreshToken_try_def Let_def)
  ultimately show ?thesis
    by (simp add: refreshToken_def storage_simps)
qed

theorem C4_refreshToken_target_witness:
  "getItem (sessionStorage (snd (refreshToken (\<lambda>e. ''failed'')
       (Resolved \<lparr> success = True, data = Some ''n'', message = None \<rparr>)
       \<lparr> currentUser = Some (), authToken = Some ''a'',
         localStorage = [''user'' \<mapsto> ''u''],
         sessionStorage = [''authToken'' \<mapsto> ''a'', ''refreshToken'' \<mapsto> ''r''] \<rparr>))) ''authToken''
     = Some ''n''
   \<and> getItem (localStorage (snd (refreshToken (\<lambda>e. ''failed'')
       (Resolved \<lparr> success = True, data = Some ''n'', message = None \<rparr>)
       \<lparr> currentUser = Some (), authToken = Some ''a'',
         localStorage = [''authToken'' \<mapsto> ''a'', ''refreshToken'' \<mapsto> ''r'', ''user'' \<mapsto> ''u''],
         sessionStorage = Map.empty \<rparr>))) ''authToken''
     = Some ''n''"
proof -
  let ?r = "\<lparr> success = True, data = Some ''n'', message = None \<rparr>"
  let ?s1 = "\<lparr> currentUser = Some (), authToken = Some ''a'',
               localStorage = [''user'' \<mapsto> ''u''],
               sessionStorage = [''authToken'' \<mapsto> ''a'', ''refreshToken'' \<mapsto> ''r''] \<rparr>"
  let ?s2 = "\<lparr> currentUser = Some (), authToken = Some ''a'',
               localStorage = [''authToken'' \<mapsto> ''a'', ''refreshToken'' \<mapsto> ''r'', ''user'' \<mapsto> ''u''],
               sessionStorage = Map.empty \<rparr>"
  have r: "success ?r" "data ?r = Some ''n''" by simp_all
  have t1: "truthy (stored_refreshToken ?s1)"
    by (simp add: stored_refreshToken_def js_or_def truthy_simps getItem_def)
  have t2: "truthy (stored_refreshToken ?s2)"
    by (simp add: stored_refreshToken_def js_or_def truthy_simps getItem_def)
  have a1: "\<not> truthy (getItem (localStorage ?s1) ''refreshToken'')"
           "\<not> truthy (getItem (localStorage ?s1) ''authToken'')"
    by (simp_all add: truthy_simps getItem_def)
  have a2: "truthy (getItem (localStorage ?s2) ''refreshToken'')"
           "truthy (getItem (localStorage ?s2) ''authToken'')"
    by (simp_all add: truthy_simps getItem_def)
  from C4_refreshToken_target [OF t1 refl r, of "\<lambda>e. ''failed''"] a1
  have "getItem (sessionStorage (snd (refreshToken (\<lambda>e. ''failed'') (Resolved ?r) ?s1))) ''authToken''
          = Some ''n''"
    by blast
  moreover
  from C4_refreshToken_target [OF t2 refl r, of "\<lambda>e. ''failed''"] a2
  have "getItem (localStorage (snd (refreshToken (\<lambda>e. ''failed'') (Resolved ?r) ?s2))) ''authToken''
          = Some ''n''"
    by blast
  ultimately show ?thesis by blast
qed

text \<open>
  C5, as stated: \<^verbatim>\<open>refreshToken()\<close> fails for want of a refresh token exactly when none is
  stored in either place. It fails on a store that holds an empty refresh token: the
  entry is there, and \<^verbatim>\<open>if (!refreshToken)\<close> takes the empty string for none.
\<close>

theorem C5_empty_refresh_token_counterexample:
  "getItem (localStorage \<lparr> currentUser = Some (), authToken = Some ''a'',
              localStorage = [''authToken'' \<mapsto> ''a'', ''refreshToken'' \<mapsto> ''''],
              sessionStorage = Map.empty \<rparr>) ''refreshToken'' \<noteq> None
   \<and> refreshToken_try (Resolved \<lparr> success = True, data = Some ''n'', message = None \<rparr>)
        \<lparr> currentUser = Some (), authToken = Some ''a'',
          localStorage = [''authToken'' \<mapsto> ''a'', ''refreshToken'' \<mapsto> ''''],
          sessionStorage = Map.empty \<rparr>
      = Inl (Error ''No refresh token available'')"
  by (simp add: refreshToken_try_def stored_refreshToken_def js_or_def truthy_simps getItem_def)

text \<open>
  C5, amended: the \<^verbatim>\<open>try\<close> block of \<^verbatim>\<open>refreshToken()\<close> throws
  \<^verbatim>\<open>No refresh token available\<close> exactly when neither store holds a non-empty refresh
  token (an entry that is absent or empty counts as none). When one is stored and the
  exchange is rejected (the request rejects, or its response is unsuccessful or without
  data), it throws the rejection or \<^verbatim>\<open>Token refresh failed\<close>. Whatever the block throws,
  \<^verbatim>\<open>refreshToken()\<close> rejects with \<^verbatim>\<open>handleApiError\<close> of it and leaves the session cleared:
  user and token in memory null, \<^verbatim>\<open>authToken\<close> and \<^verbatim>\<open>refreshToken\<close> in neither store,
  \<^verbatim>\<open>isAuthenticated\<close> false.
\<close>

theorem C5_refreshToken_failure:
  "(refreshToken_try outcome s = Inl (Error ''No refresh token available'')
      \<longleftrightarrow> \<not> truthy (getItem (localStorage s) ''refreshToken'')
          \<and> \<not> truthy (getItem (sessionStorage s) ''refreshToken''))
   \<and> (truthy (stored_refreshToken s)
       \<longrightarrow> (outcome = Rejected r \<longrightarrow> refreshToken_try outcome s = Inl (Rejection r))
         \<and> (outcome = Resolved response \<and> (\<not> success response \<or> data response = None)
              \<longrightarrow> refreshToken_try outcome s = Inl (Error ''Token refresh failed'')))
   \<and> (refreshToken_try outcome s = Inl cause
       \<longrightarrow> fst (refreshToken h outcome s) = Inl (Error (h cause))
         \<and> snd (refreshToken h outcome s) = clearAuth s
         \<and> currentUser (snd (refreshToken h outcome s)) = None
         \<and> authToken (snd (refreshToken h outcome s)) = None
         \<and> getItem (localStorage (snd (refreshToken h outcome s))) ''authToken'' = None
         \<and> getItem (localStorage (snd (refreshToken h outcome s))) ''refreshToken'' = None
         \<and> getItem (sessionStorage (snd (refreshToken h outcome s))) ''authToken'' = None
         \<and> getItem (sessionStorage (snd (refreshToken h outcome s))) ''refreshToken'' = None
         \<and> \<not> isAuthenticated (snd (refreshToken h outcome s)))"
proof (intro conjI)
  show "refreshToken_try outcome s = Inl (Error ''No refresh token available'')
      \<longleftrightarrow> \<not> truthy (getItem (localStorage s) ''refreshToken'')
          \<and> \<not> truthy (getItem (sessionStorage s) ''refreshToken'')"
    by (simp add: refreshToken_try_cases split: awaited.splits)
next
  show "truthy (stored_refreshToken s)
       \<longrightarrow> (outcome = Rejected r \<longrightarrow> refreshToken_try outcome s = Inl (Rejection r))
         \<and> (outcome = Resolved response \<and> (\<not> success response \<or> data response = None)
              \<longrightarrow> refreshToken_try outcome s = Inl (Error ''Token refresh failed''))"
    by (auto simp: refreshToken_try_cases stored_refreshToken_def js_or_def)
next
  show "refreshToken_try outcome s = Inl cause
       \<longrightarrow> fst (refreshToken h outcome s) = Inl (Error (h cause))
         \<and> snd (refreshToken h outcome s) = clearAuth s
         \<and> currentUser (snd (refreshToken h outcome s)) = None
         \<and> authToken (snd (refreshToken h outcome s)) = None
         \<and> getItem (localStorage (snd (refreshToken h outcome s))) ''authToken'' = None
         \<and> getItem (localStorage (snd (refreshToken h outcome s))) ''refreshToken'' = None
         \<and> getItem (sessionStorage (snd (refreshToken h outcome s))) ''authToken'' = None
         \<and> getItem (sessionStorage (snd (refreshToken h outcome s))) ''refreshToken'' = None
         \<and> \<not> isAuthenticated (snd (refreshToken h outcome s))"
    by (simp add: refreshToken_def clearAuth_simps isAuthenticated_def truthy_simps)
qed

theorem C5_refreshToken_failure_witness:
  "refreshToken (\<lambda>e. case e of Error m \<Rightarrow> m | Rejection m \<Rightarrow> m)
       (Resolved \<lparr> success = True, data = Some ''n'', message = None \<rparr>)
       \<lparr> currentUser = Some (), authToken = Some ''a'',
         localStorage = [''authToken'' \<mapsto> ''a'', ''user'' \<mapsto> ''u''],
         sessionStorage = Map.empty \<rparr>
     = (Inl (Error ''No refresh token available''),
        clearAuth \<lparr> currentUser = Some (), authToken = Some ''a'',
          localStorage = [''authToken'' \<mapsto> ''a'', ''user'' \<mapsto> ''u''],
          sessionStorage = Map.empty \<rparr>)
   \<and> refreshToken (\<lambda>e. case e of Error m \<Rightarrow> m | Rejection m \<Rightarrow> m)
       (Rejected ''401'')
       \<lparr> currentUser = Some (), authToken = Some ''a'',
         localStorage = [''authToken'' \<mapsto> ''a'', ''refreshToken'' \<mapsto> ''r''],
         sessionStorage = Map.empty \<rparr>
     = (Inl (Error ''401''),
        clearAuth \<lparr> currentUser = Some (), authToken = Some ''a'',
          localStorage = [''authToken'' \<mapsto> ''a'', ''refreshToken'' \<mapsto> ''r''],
          sessionStorage = Map.empty \<rparr>)"
proof -
  let ?h = "\<lambda>e. case e of Error m \<Rightarrow> m | Rejection m \<Rightarrow> m"
  let ?ok = "Resolved \<lparr> success = True, data = Some ''n'', message = None \<rparr>"
  let ?no = "\<lparr> success = False, data = None, message = None \<rparr> :: string api_response"
  let ?s1 = "\<lparr> currentUser = Some (), authToken = Some ''a'',
               localStorage = [''authToken'' \<mapsto> ''a'', ''user'' \<mapsto> ''u''],
               sessionStorage = Map.empty \<rparr>"
  let ?s2 = "\<lparr> currentUser = Some (), authToken = Some ''a'',
               localStorage = [''authToken'' \<mapsto> ''a'', ''refreshToken'' \<mapsto> ''r''],
               sessionStorage = Map.empty \<rparr>"
  have n1: "\<not> truthy (getItem (localStorage ?s1) ''refreshToken'')
            \<and> \<not> truthy (getItem (sessionStorage ?s1) ''refreshToken'')"
    by (simp add: truthy_simps getItem_def)
  have t2: "truthy (stored_refreshToken ?s2)"
    by (simp add: stored_refreshToken_def js_or_def truthy_simps getItem_def)
  note w1 = C5_refreshToken_failure [of ?ok ?s1 "''x''" ?no "Error ''No refresh token available''" ?h]
  note w2 = C5_refreshToken_failure [of "Rejected ''401''" ?s2 "''401''" ?no "Rejection ''401''" ?h]
  from w1 n1 have c1: "refreshToken_try ?ok ?s1 = Inl (Error ''No refresh token available'')"
    by blast
  from w2 t2 have c2: "refreshToken_try (Rejected ''401'') ?s2 = Inl (Rejection ''401'')"
    by blast
  from w1 c1 have "refreshToken ?h ?ok ?s1 = (Inl (Error ''No refresh token available''), clearAuth ?s1)"
    by (simp add: prod_eq_iff)
  moreover
  from w2 c2 have "refreshToken ?h (Rejected ''401'') ?s2 = (Inl (Error ''401''), clearAuth ?s2)"
    by (simp add: prod_eq_iff)
  ultimately show ?thesis by blast
qed


section \<open>Properties of the number arithmetic\<close>

text \<open>
  The exponent found by \<open>floor_log2\<close> is the right one, rounding moves a value by at most
  half a unit in the last place, and integers below \<open>2 ^ 53\<close> are doubles.
\<close>

lemma p2_less_cancel: "(2 :: rat) powi m < 2 powi n \<Longrightarrow> m < n"
  using power_int_increasing [of n m "2 :: rat"] by (cases "m < n") auto

lemma floor_log2_bounds:
  assumes "0 < x"
  shows "2 powi floor_log2 x \<le> x" and "x < 2 powi (floor_log2 x + 1)"
proof -
  have "2 powi floor_log2 x \<le> x \<and> x < 2 powi (floor_log2 x + 1)"
  proof (cases "1 \<le> x")
    case True
    let ?N = "\<lfloor>x\<rfloor>"
    from True have N: "0 < ?N" by simp
    from bitlen_bounds [OF N] have lo: "2 ^ nat (bitlen ?N - 1) \<le> ?N" and hi: "?N < 2 ^ nat (bitlen ?N)"
      by simp_all
    from N have b1: "1 \<le> bitlen ?N" by (simp add: bitlen_alt_def)
    have e: "floor_log2 x = bitlen ?N - 1" using True by (simp add: floor_log2_def)
    have "(2 :: rat) powi (bitlen ?N - 1) = of_int (2 ^ nat (bitlen ?N - 1))"
      using b1 by (simp add: power_int_def)
    also have "\<dots> \<le> of_int ?N" using lo by (simp only: of_int_le_iff)
    also have "\<dots> \<le> x" by simp
    finally have l: "2 powi floor_log2 x \<le> x" by (simp add: e)
    from hi have "?N + 1 \<le> 2 ^ nat (bitlen ?N)" by simp
    then have "(of_int (?N + 1) :: rat) \<le> of_int (2 ^ nat (bitlen ?N))" by (simp only: of_int_le_iff)
    moreover have "x < of_int (?N + 1)" using floor_correct [of x] by simp
    moreover have "(of_int (2 ^ nat (bitlen ?N)) :: rat) = 2 powi (bitlen ?N)"
      using b1 by (simp add: power_int_def)
    ultimately have "x < 2 powi (floor_log2 x + 1)" by (simp add: e)
    with l show ?thesis by simp
  next
    case False
    let ?y = "1 / x"
    let ?K = "\<lceil>?y\<rceil> - 1"
    from False assms have y1: "1 < ?y" by simp
    then have K: "0 < ?K" by simp
    from bitlen_bounds [OF K] have lo: "2 ^ nat (bitlen ?K - 1) \<le> ?K" and hi: "?K < 2 ^ nat (bitlen ?K)"
      by simp_all
    from K have b1: "1 \<le> bitlen ?K" by (simp add: bitlen_alt_def)
    have e: "floor_log2 x = - bitlen ?K" using False by (simp add: floor_log2_def)
    have pb: "(2 :: rat) powi (bitlen ?K) = of_int (2 ^ nat (bitlen ?K))"
      using b1 by (simp add: power_int_def)
    have pb1: "(2 :: rat) powi (bitlen ?K - 1) = of_int (2 ^ nat (bitlen ?K - 1))"
      using b1 by (simp add: power_int_def)
    have "?y \<le> of_int \<lceil>?y\<rceil>" by (rule le_of_int_ceiling)
    also have "\<lceil>?y\<rceil> \<le> 2 ^ nat (bitlen ?K)" using hi by simp
    then have "(of_int \<lceil>?y\<rceil> :: rat) \<le> of_int (2 ^ nat (bitlen ?K))" by (simp only: of_int_le_iff)
    finally have yle: "?y \<le> 2 powi (bitlen ?K)" by (simp only: pb)
    have "(of_int ?K :: rat) < ?y" using ceiling_correct [of ?y] by simp
    moreover have "(of_int (2 ^ nat (bitlen ?K - 1)) :: rat) \<le> of_int ?K" using lo by (simp only: of_int_le_iff)
    ultimately have ygt: "2 powi (bitlen ?K - 1) < ?y" by (simp only: pb1)
    have p0: "(0 :: rat) < 2 powi (bitlen ?K)" "(0 :: rat) < 2 powi (bitlen ?K - 1)" by simp_all
    from yle assms p0 have "1 / 2 powi (bitlen ?K) \<le> x"
      by (simp add: field_simps)
    then have l: "2 powi floor_log2 x \<le> x" by (simp add: e power_int_minus_divide)
    from ygt assms p0 have "x < 1 / 2 powi (bitlen ?K - 1)"
      by (simp add: field_simps)
    moreover have "- bitlen ?K + 1 = - (bitlen ?K - 1)" by simp
    ultimately have "x < 2 powi (floor_log2 x + 1)"
      by (simp only: e power_int_minus_divide)
    with l show ?thesis by simp
  qed
  then show "2 powi floor_log2 x \<le> x" and "x < 2 powi (floor_log2 x + 1)" by simp_all
qed


lemma round_half_even_error: "\<bar>of_int (round_half_even r) - r\<bar> \<le> 1 / 2"
proof -
  define f where "f = \<lfloor>r\<rfloor>"
  define d where "d = r - of_int f"
  have d: "0 \<le> d" "d < 1"
    using floor_correct [of r] by (simp_all add: d_def f_def)
  have rhe: "round_half_even r
      = (if d < 1 / 2 then f else if 1 / 2 < d then f + 1 else if even f then f else f + 1)"
    by (simp add: round_half_even_def Let_def f_def d_def)
  have "of_int (round_half_even r) - r
      = (if d < 1 / 2 then - d else if 1 / 2 < d then 1 - d else if even f then - d else 1 - d)"
    by (simp add: rhe d_def)
  moreover have "\<bar>(if d < 1 / 2 then - d else if 1 / 2 < d then 1 - d
                   else if even f then - d else 1 - d)\<bar> \<le> 1 / 2"
    using d by (simp add: abs_if)
  ultimately show ?thesis by simp
qed

lemma round_half_even_int [simp]: "round_half_even (of_int k) = k"
  by (simp add: round_half_even_def)

lemma floor_log2_int:
  assumes "0 < n" and "n < 2 ^ 53"
  shows "0 \<le> floor_log2 (of_int n)" and "floor_log2 (of_int n) \<le> 52"
proof -
  from assms(1) have b1: "1 \<le> bitlen n" by (simp add: bitlen_alt_def)
  from assms(2) have "n < 2 ^ nat 53" by simp
  then have b2: "bitlen n \<le> 53" by (simp only: bitlen_le_iff_power) simp
  have "floor_log2 (of_int n) = bitlen n - 1"
    using assms(1) by (simp add: floor_log2_def)
  with b1 b2 show "0 \<le> floor_log2 (of_int n)" and "floor_log2 (of_int n) \<le> 52"
    by simp_all
qed

lemma round_double_int:
  assumes "0 < n" and "n < 2 ^ 53"
  shows "round_double (of_int n) = Fin (of_int n)"
proof -
  let ?e = "floor_log2 (of_int n)"
  from floor_log2_int [OF assms] have e: "0 \<le> ?e" "?e \<le> 52" .
  then have m: "max ?e (- 1022) = ?e" by simp
  let ?k = "nat (52 - ?e)"
  have q: "(2 :: rat) powi (?e - 52) = 1 / 2 ^ ?k"
    using e power_int_minus_divide [of "2 :: rat" "52 - ?e"] by (simp add: power_int_def)
  have "(of_int n :: rat) / 2 powi (?e - 52) = of_int (n * 2 ^ ?k)"
    by (simp add: q)
  then have r: "round_half_even (\<bar>of_int n\<bar> / 2 powi (?e - 52)) = n * 2 ^ ?k"
    using assms(1) by (simp only: abs_of_pos of_int_0_less_iff round_half_even_int) 
  have "round_double (of_int n)
      = Fin (sgn (of_int n) * of_int (n * 2 ^ ?k) * 2 powi (?e - 52))"
    using assms(1) e m r by (simp add: round_double_def Let_def del: of_int_mult of_int_power)
  also have "\<dots> = Fin (of_int n)"
    using assms(1) by (simp add: q)
  finally show ?thesis .
qed

lemma round_double_error:
  assumes lo: "2 powi (- 1022) \<le> x" and hi: "x < 2 powi 1023"
  shows "\<exists>y. round_double x = Fin y \<and> \<bar>y - x\<bar> \<le> x / 2 ^ 53"
proof -
  have pos: "0 < x"
    using lo zero_less_power_int [of "2 :: rat" "- 1022"] by linarith
  let ?e = "floor_log2 x"
  note b = floor_log2_bounds [OF pos]
  from lo b(2) have "(2 :: rat) powi (- 1022) < 2 powi (?e + 1)" by linarith
  then have e1: "- 1022 \<le> ?e" using p2_less_cancel by fastforce
  from b(1) hi have "(2 :: rat) powi ?e < 2 powi 1023" by linarith
  then have e2: "?e < 1023" by (rule p2_less_cancel)
  from e1 have m: "max ?e (- 1022) = ?e" by simp
  let ?q = "(2 :: rat) powi (?e - 52)"
  let ?n = "round_half_even (x / ?q)"
  have qpos: "0 < ?q" by simp
  have rd: "round_double x = Fin (of_int ?n * ?q)"
    using pos e2 m by (simp add: round_double_def Let_def)
  have "\<bar>of_int ?n - x / ?q\<bar> \<le> 1 / 2" by (rule round_half_even_error)
  then have "\<bar>of_int ?n - x / ?q\<bar> * ?q \<le> 1 / 2 * ?q"
    using qpos by (intro mult_right_mono) simp_all
  moreover have "\<bar>of_int ?n - x / ?q\<bar> * ?q = \<bar>of_int ?n * ?q - x\<bar>"
  proof -
    have "\<bar>of_int ?n - x / ?q\<bar> * ?q = \<bar>(of_int ?n - x / ?q) * ?q\<bar>"
      using qpos by (simp add: abs_mult)
    also have "(of_int ?n - x / ?q) * ?q = of_int ?n * ?q - x"
      using qpos by (simp add: left_diff_distrib)
    finally show ?thesis .
  qed
  moreover have "1 / 2 * ?q = 2 powi ?e / 2 ^ 53"
  proof -
    have "(2 :: rat) powi (?e - 52) = 2 powi ?e / 2 powi 52"
      by (simp add: power_int_diff)
    then show ?thesis by simp
  qed
  moreover have "(2 :: rat) powi ?e / 2 ^ 53 \<le> x / 2 ^ 53"
    using b(1) by (simp add: divide_right_mono)
  ultimately have "\<bar>of_int ?n * ?q - x\<bar> \<le> x / 2 ^ 53" by linarith
  with rd show ?thesis by blast
qed

lemma p2_bounds:
  "(2 :: rat) powi (- 1022) \<le> 1 / 2 ^ 53" "(2 :: rat) ^ 53 \<le> 2 powi 1023"
proof -
  have "(2 :: rat) powi (- 1022) \<le> 2 powi (- 53)"
    by (rule power_int_increasing) simp_all
  then show "(2 :: rat) powi (- 1022) \<le> 1 / 2 ^ 53"
    by (simp add: power_int_minus_divide)
  have "(2 :: rat) powi 53 \<le> 2 powi 1023"
    by (rule power_int_increasing) simp_all
  then show "(2 :: rat) ^ 53 \<le> 2 powi 1023" by simp
qed

lemma round_double_quotient:
  fixes a b :: int
  assumes a: "0 < a" "a < 2 ^ 53" and b: "0 < b" "b < 2 ^ 53"
  shows "\<exists>y. round_double (of_int a / of_int b) = Fin y
           \<and> \<bar>y - of_int a / of_int b\<bar> < 1 / of_int b"
proof -
  let ?x = "(of_int a :: rat) / of_int b"
  have bp: "(0 :: rat) < of_int b" using b by simp
  have "(1 :: rat) \<le> of_int a" using a by simp
  then have "1 / of_int b \<le> ?x" using bp by (simp add: divide_right_mono)
  moreover have "(of_int b :: rat) < 2 ^ 53"
    using b(2) of_int_less_iff [of b "2 ^ 53", where ?'a = rat] by simp
  then have "(1 :: rat) / 2 ^ 53 < 1 / of_int b" using bp by (simp add: field_simps)
  ultimately have lo: "2 powi (- 1022) \<le> ?x" using p2_bounds(1) by linarith
  have a53: "(of_int a :: rat) < 2 ^ 53"
    using a(2) of_int_less_iff [of a "2 ^ 53", where ?'a = rat] by simp
  have "(1 :: rat) \<le> of_int b" using b by simp
  then have "?x \<le> of_int a" using a by (simp add: field_simps mult_le_cancel_left1)
  with a53 have hi: "?x < 2 powi 1023" using p2_bounds(2) by linarith
  from round_double_error [OF lo hi] obtain y
    where y: "round_double ?x = Fin y" "\<bar>y - ?x\<bar> \<le> ?x / 2 ^ 53" by blast
  have "(of_int a :: rat) / 2 ^ 53 < 1" using a53 by simp
  from divide_strict_right_mono [OF this bp]
  have "(of_int a :: rat) / 2 ^ 53 / of_int b < 1 / of_int b" .
  moreover have "?x / 2 ^ 53 = (of_int a / 2 ^ 53) / of_int b" by simp
  ultimately have "?x / 2 ^ 53 < 1 / of_int b" by (simp only:)
  with y(2) have "\<bar>y - ?x\<bar> < 1 / of_int b" by linarith
  with y(1) show ?thesis by blast
qed

lemma js_ceil_div_safe:
  fixes t l :: int
  assumes t: "0 \<le> t" "t < 2 ^ 53" and l: "0 < l" "l < 2 ^ 53"
  shows "js_ceil (js_div (Fin (of_int t)) (Fin (of_int l)))
      = Fin (of_int \<lceil>(of_int t :: rat) / of_int l\<rceil>)"
proof (cases "t = 0")
  case True
  then show ?thesis using l by (simp add: round_double_def)
next
  case False
  with t have tp: "0 < t" by simp
  let ?x = "(of_int t :: rat) / of_int l"
  let ?c = "\<lceil>?x\<rceil>"
  have lp: "(0 :: rat) < of_int l" using l by simp
  have ln: "(of_int l :: rat) \<noteq> 0" using l by simp
  have div: "js_div (Fin (of_int t)) (Fin (of_int l)) = round_double ?x"
    using ln by simp
  have up: "?x \<le> of_int ?c" by (rule le_of_int_ceiling)
  have dn: "of_int ?c - 1 < ?x" using ceiling_correct [of ?x] by simp
  show ?thesis
  proof (cases "?x = of_int ?c")
    case True
    have cpos: "0 < ?c" using tp lp by (simp add: True [symmetric])
    have "(of_int ?c :: rat) \<le> of_int t"
    proof -
      have "(1 :: rat) \<le> of_int l" using l by simp
      then have "?x \<le> of_int t" using tp by (simp add: field_simps mult_le_cancel_left1)
      with True show ?thesis by simp
    qed
    then have "?c \<le> t" by (simp only: of_int_le_iff)
    with t(2) have c53: "?c < 2 ^ 53" by linarith
    have "round_double ?x = round_double (of_int ?c)" using True by simp
    also have "\<dots> = Fin (of_int ?c)" by (rule round_double_int [OF cpos c53])
    finally show ?thesis by (simp only: div js_ceil.simps ceiling_of_int)
  next
    case False
    with up have lt: "?x < of_int ?c" by linarith
    have "of_int t < (of_int ?c :: rat) * of_int l"
      using lt lp by (simp add: pos_divide_less_eq)
    then have "(of_int t :: rat) < of_int (?c * l)" by simp
    then have "t < ?c * l" by (simp only: of_int_less_iff)
    then have "t + 1 \<le> ?c * l" by simp
    then have "(of_int (t + 1) :: rat) \<le> of_int (?c * l)" by (simp only: of_int_le_iff)
    then have "(of_int t :: rat) + 1 \<le> of_int ?c * of_int l" by simp
    then have "((of_int t :: rat) + 1) / of_int l \<le> of_int ?c"
      unfolding pos_divide_le_eq [OF lp] .
    then have hi: "?x + 1 / of_int l \<le> of_int ?c"
      by (simp only: add_divide_distrib)
    have "(of_int ?c - 1) * of_int l < (of_int t :: rat)"
      using dn lp by (simp add: pos_less_divide_eq)
    then have "(of_int ((?c - 1) * l) :: rat) < of_int t" by simp
    then have "(?c - 1) * l < t" by (simp only: of_int_less_iff)
    then have "(?c - 1) * l + 1 \<le> t" by simp
    then have "(of_int ((?c - 1) * l + 1) :: rat) \<le> of_int t" by (simp only: of_int_le_iff)
    then have "(of_int ?c - 1) * of_int l + 1 \<le> (of_int t :: rat)" by simp
    then have "((of_int ?c - 1) * of_int l + 1) / of_int l \<le> ?x"
      using lp by (intro divide_right_mono) simp_all
    moreover have "((of_int ?c - 1) * of_int l + 1) / of_int l
        = (of_int ?c :: rat) - 1 + 1 / of_int l"
      using ln by (simp add: add_divide_distrib)
    ultimately have lo: "of_int ?c - 1 + 1 / of_int l \<le> ?x" by (simp only:)
    from round_double_quotient [OF tp t(2) l] obtain y
      where y: "round_double ?x = Fin y" "\<bar>y - ?x\<bar> < 1 / of_int l" by blast
    from y(2) hi lo have "of_int ?c - 1 < y" "y \<le> of_int ?c" by linarith+
    then have "\<lceil>y\<rceil> = ?c" by (intro ceiling_unique) simp_all
    with y(1) show ?thesis by (simp only: div js_ceil.simps)
  qed
qed



lemma round_double_large_quotient:
  "js_ceil (js_div (Fin 27021597764222984) (Fin 3)) = Fin 9007199254740994"
  by code_simp

section \<open>Properties of the token expiry check\<close>





lemma isTokenExpired_cases:
  "t \<noteq> [] \<Longrightarrow> js_or tokenArg authTok = Some t \<Longrightarrow>
   isTokenExpired parse coerce nowMs tokenArg authTok =
     (case decode_payload parse t of
        None \<Rightarrow> True
      | Some payload \<Rightarrow>
          (case get_exp payload of
             Inl e \<Rightarrow> True
           | Inr v \<Rightarrow> js_lt (toNumber coerce v) (js_div (Fin (of_int nowMs)) (Fin 1000))))"
  by (simp add: isTokenExpired_def truthy_simps Let_def del: js_div.simps(1) split: option.splits)

lemma js_lt_NaN [simp]: "js_lt NaN x = False"
  by (cases x) simp_all















text \<open>
  C10, as stated: a token whose second segment decodes to valid JSON without an \<^verbatim>\<open>exp\<close>
  claim is reported as not expired. It fails when that JSON is \<^verbatim>\<open>null\<close>: the segment
  \<^verbatim>\<open>bnVsbA==\<close> is the base64 of the text \<^verbatim>\<open>null\<close>, which \<^verbatim>\<open>JSON.parse\<close> accepts, and reading
  \<^verbatim>\<open>exp\<close> of \<^verbatim>\<open>null\<close> throws into the \<^verbatim>\<open>catch\<close>, which returns true.
\<close>

theorem C10_null_payload_counterexample:
  "atob (segment_text ''h.bnVsbA==.s'') = Some ''null''
   \<and> isTokenExpired (\<lambda>d. if d = ''null'' then Some JNull else None) (\<lambda>v. NaN) 0
        (Some ''h.bnVsbA==.s'') None"
proof -
  have seg: "segment_text ''h.bnVsbA==.s'' = ''bnVsbA==''"
    by (simp add: segment_text_def second_segment_def)
  have dec: "atob ''bnVsbA=='' = Some ''null''"
    by code_simp
  show ?thesis
    by (simp add: isTokenExpired_def js_or_def truthy_simps decode_payload_def seg dec)
qed

text \<open>
  C10, amended: for every token string whose second segment decodes to valid JSON that
  contains no \<^verbatim>\<open>exp\<close> claim (an object without that member, a number, string, boolean or
  array, or \<^verbatim>\<open>null\<close>), \<^verbatim>\<open>isTokenExpired\<close> returns false unless that JSON is \<^verbatim>\<open>null\<close>, for
  which it returns true.
\<close>

theorem C10_no_exp_not_expired:
  assumes "t \<noteq> []"
    and "decode_payload parse t = Some payload"
    and "\<forall>members. payload = JObj members \<longrightarrow> map_of members ''exp'' = None"
  shows "isTokenExpired parse coerce nowMs (Some t) authTok \<longleftrightarrow> payload = JNull"
proof -
  have tok: "js_or (Some t) authTok = Some t"
    using assms(1) by (simp add: js_or_def truthy_simps)
  show ?thesis
  proof (cases "payload = JNull")
    case True
    with tok assms(1,2) show ?thesis
      by (simp add: isTokenExpired_cases)
  next
    case False
    with assms(3) have "get_exp payload = Inr None"
      by (cases payload) simp_all
    with False tok assms(1,2) show ?thesis
      by (simp add: isTokenExpired_cases)
  qed
qed

lemma atob_empty_object: "atob (segment_text ''h.e30=.s'') = Some ''{}''"
proof -
  have "atob ''e30='' = Some ''{}''"
    by code_simp
  then show ?thesis
    by (simp add: segment_text_def second_segment_def)
qed

theorem C10_no_exp_not_expired_witness:
  "\<not> isTokenExpired (\<lambda>d. if d = ''{}'' then Some (JObj []) else None) (\<lambda>v. NaN) 1700000000000
       (Some ''h.e30=.s'') None"
proof -
  let ?parse = "\<lambda>d. if d = ''{}'' then Some (JObj []) else None"
  have ne: "''h.e30=.s'' \<noteq> []" by simp
  have dec: "decode_payload ?parse ''h.e30=.s'' = Some (JObj [])"
    by (simp add: decode_payload_def atob_empty_object)
  have noexp: "\<forall>members. JObj [] = JObj members \<longrightarrow> map_of members ''exp'' = None" by simp
  from C10_no_exp_not_expired [OF ne dec noexp, of "\<lambda>v. NaN" 1700000000000 None]
  show ?thesis by simp
qed

section \<open>Properties of the list screens\<close>

lemma ceiling_pages:
  fixes t l :: int
  assumes "0 < l"
  shows "\<lceil>(of_int t :: rat) / of_int l\<rceil> = (t + l - 1) div l"
    and "(\<lceil>(of_int t :: rat) / of_int l\<rceil> - 1) * l < t"
    and "t \<le> \<lceil>(of_int t :: rat) / of_int l\<rceil> * l"
proof -
  let ?n = "\<lceil>(of_int t :: rat) / of_int l\<rceil>"
  have lpos: "(0 :: rat) < of_int l" using assms by simp
  have up: "(of_int t :: rat) / of_int l \<le> of_int ?n" by (rule le_of_int_ceiling)
  have lo: "of_int ?n - 1 < (of_int t :: rat) / of_int l"
    using ceiling_correct [of "(of_int t :: rat) / of_int l"] by simp
  from up have "(of_int t :: rat) \<le> of_int ?n * of_int l"
    unfolding pos_divide_le_eq [OF lpos] .
  then have "(of_int t :: rat) \<le> of_int (?n * l)" by simp
  then show hi': "t \<le> ?n * l" by (simp only: of_int_le_iff)
  from lo have "(of_int ?n - 1) * of_int l < (of_int t :: rat)"
    unfolding pos_less_divide_eq [OF lpos] .
  then have "(of_int ((?n - 1) * l) :: rat) < of_int t" by simp
  then show lo': "(?n - 1) * l < t" by (simp only: of_int_less_iff)
  have "(t + l - 1) div l = ?n"
  proof (rule int_div_pos_eq [where r = "t + l - 1 - l * ?n"])
    show "t + l - 1 = l * ?n + (t + l - 1 - l * ?n)" by simp
    show "0 \<le> t + l - 1 - l * ?n" using lo' by (simp add: algebra_simps)
    show "t + l - 1 - l * ?n < l" using hi' by (simp add: algebra_simps)
  qed
  then show "?n = (t + l - 1) div l" by simp
qed

lemma js_ceil_div_zero: "lmt \<noteq> 0 \<Longrightarrow> js_ceil (js_div (Fin 0) (Fin lmt)) = Fin 0"
  by (simp add: round_double_def)

lemma js_ceil_div_pages:
  fixes t l :: int
  assumes "0 \<le> t" and "t < 2 ^ 53" and "0 < l" and "l < 2 ^ 53"
  shows "js_ceil (js_div (Fin (of_int t)) (Fin (of_int l))) = Fin (of_int ((t + l - 1) div l))"
    and "((t + l - 1) div l - 1) * l < t"
    and "t \<le> (t + l - 1) div l * l"
proof -
  note c = ceiling_pages [OF assms(3), of t]
  show "js_ceil (js_div (Fin (of_int t)) (Fin (of_int l))) = Fin (of_int ((t + l - 1) div l))"
    unfolding js_ceil_div_safe [OF assms] c(1) ..
  from c(2) show "((t + l - 1) div l - 1) * l < t" unfolding c(1) .
  from c(3) show "t \<le> (t + l - 1) div l * l" unfolding c(1) .
qed

text \<open>
  C7, as stated: for every paginated response a list screen observes, the stored
  \<^verbatim>\<open>totalPages\<close> is the ceiling of \<open>total / limit\<close>. It fails on the bookings screen, which
  stores the \<^verbatim>\<open>meta.totalPages\<close> of the response and reads neither \<^verbatim>\<open>meta.total\<close> nor its
  own limit for it: with 7 bookings, a limit of 10 and \<^verbatim>\<open>meta.totalPages = 99\<close> it stores
  99, not 1. It also fails on the screens that do compute the value, once the quotient
  is too large for a double to hold: for the total 27021597764222984 and the limit 3
  the customers screen stores 9007199254740994, and the ceiling is 9007199254740995.
\<close>

theorem C7_stored_pages_counterexample:
  "pagination_totalPages (pagination (loadBookings_finish
       (Resolved \<lparr> br_data = [''b1''],
                   br_meta = \<lparr> meta_total = Fin 7, meta_totalPages = Fin 99 \<rparr> \<rparr>)
       \<lparr> bookings = [], bk_loading = True, bk_error = None,
         pagination = \<lparr> pagination_page = 1, pagination_limit = 10,
                        pagination_total = Fin 0, pagination_totalPages = Fin 0 \<rparr>,
         bk_filters = \<lparr> status = [], search = [], dateFrom = [], dateTo = [] \<rparr>,
         selectedBooking = None, showStatusModal = False, showDetailsModal = False,
         showDeleteModal = False, actionLoading = False, bk_requests = [] \<rparr>)) = Fin 99
   \<and> \<lceil>(7 :: rat) / 10\<rceil> = 1
   \<and> totalPages (fetchCustomers_finish
       (Resolved \<lparr> pr_data = [''c1''], pr_total = Fin 27021597764222984, pr_limit = Fin 3,
                   pr_page = Fin 1, pr_totalPages = Fin 9007199254740995 \<rparr>)
       \<lparr> items = [], loading = True, fetchError = None, page = 1, totalPages = Fin 1,
         filters = Map.empty, searchTerm = [], requests = [] \<rparr>) = Fin 9007199254740994
   \<and> \<lceil>(27021597764222984 :: rat) / 3\<rceil> = 9007199254740995"
proof -
  have "\<lceil>(7 :: rat) / 10\<rceil> = 1" and "\<lceil>(27021597764222984 :: rat) / 3\<rceil> = 9007199254740995"
    by (simp_all add: ceiling_eq_iff)
  then show ?thesis
    by (simp add: loadBookings_finish_def fetchCustomers_finish_def round_double_large_quotient
        del: js_div.simps(1))
qed

text \<open>
  C7, amended: when a page of customers, of payments or of reviews arrives, the screen
  stores \<^verbatim>\<open>Math.ceil(response.total / response.limit)\<close>, computed on doubles, as
  \<^verbatim>\<open>totalPages\<close>. For an integer total from 0 to below \<open>2 ^ 53\<close> and an integer limit from 1
  to below \<open>2 ^ 53\<close> this is the ceiling of \<open>total / limit\<close>: the number \<open>n\<close> of pages with
  \<open>(n - 1) * limit < total \<le> n * limit\<close>. It is 0 when the total is 0 and the limit is any
  finite number other than 0. The bookings screen stores the \<^verbatim>\<open>meta.totalPages\<close> and the
  \<^verbatim>\<open>meta.total\<close> of the response as they come.
\<close>

theorem C7_totalPages:
  "totalPages (fetchCustomers_finish (Resolved cresponse) cs)
     = js_ceil (js_div (pr_total cresponse) (pr_limit cresponse))
   \<and> totalPages (fetchPayments_finish (Resolved presponse) ps)
     = js_ceil (js_div (pr_total presponse) (pr_limit presponse))
   \<and> totalPages (fetchReviews_finish (Resolved rresponse) rs)
     = js_ceil (js_div (pr_total rresponse) (pr_limit rresponse))
   \<and> (\<forall>t l. 0 \<le> t \<and> t < 2 ^ 53 \<and> 0 < l \<and> l < 2 ^ 53 \<longrightarrow>
         (pr_total cresponse = Fin (of_int t) \<and> pr_limit cresponse = Fin (of_int l) \<longrightarrow>
            totalPages (fetchCustomers_finish (Resolved cresponse) cs)
              = Fin (of_int \<lceil>(of_int t :: rat) / of_int l\<rceil>))
       \<and> (pr_total presponse = Fin (of_int t) \<and> pr_limit presponse = Fin (of_int l) \<longrightarrow>
            totalPages (fetchPayments_finish (Resolved presponse) ps)
              = Fin (of_int \<lceil>(of_int t :: rat) / of_int l\<rceil>))
       \<and> (pr_total rresponse = Fin (of_int t) \<and> pr_limit rresponse = Fin (of_int l) \<longrightarrow>
            totalPages (fetchReviews_finish (Resolved rresponse) rs)
              = Fin (of_int \<lceil>(of_int t :: rat) / of_int l\<rceil>))
       \<and> \<lceil>(of_int t :: rat) / of_int l\<rceil> = (t + l - 1) div l
       \<and> ((t + l - 1) div l - 1) * l < t \<and> t \<le> (t + l - 1) div l * l)
   \<and> (\<forall>lmt. lmt \<noteq> 0 \<longrightarrow>
         (pr_total cresponse = Fin 0 \<and> pr_limit cresponse = Fin lmt \<longrightarrow>
            totalPages (fetchCustomers_finish (Resolved cresponse) cs) = Fin 0)
       \<and> (pr_total presponse = Fin 0 \<and> pr_limit presponse = Fin lmt \<longrightarrow>
            totalPages (fetchPayments_finish (Resolved presponse) ps) = Fin 0)
       \<and> (pr_total rresponse = Fin 0 \<and> pr_limit rresponse = Fin lmt \<longrightarrow>
            totalPages (fetchReviews_finish (Resolved rresponse) rs) = Fin 0))
   \<and> pagination_totalPages (pagination (loadBookings_finish (Resolved bresponse) b))
     = meta_totalPages (br_meta bresponse)
   \<and> pagination_total (pagination (loadBookings_finish (Resolved bresponse) b))
     = meta_total (br_meta bresponse)"
proof -
  have stored:
    "totalPages (fetchCustomers_finish (Resolved cresponse) cs)
       = js_ceil (js_div (pr_total cresponse) (pr_limit cresponse))"
    "totalPages (fetchPayments_finish (Resolved presponse) ps)
       = js_ceil (js_div (pr_total presponse) (pr_limit presponse))"
    "totalPages (fetchReviews_finish (Resolved rresponse) rs)
       = js_ceil (js_div (pr_total rresponse) (pr_limit rresponse))"
    by (simp_all add: fetchCustomers_finish_def fetchPayments_finish_def fetchReviews_finish_def
        del: js_div.simps(1))
  have bookings:
    "pagination_totalPages (pagination (loadBookings_finish (Resolved bresponse) b))
       = meta_totalPages (br_meta bresponse)"
    "pagination_total (pagination (loadBookings_finish (Resolved bresponse) b))
       = meta_total (br_meta bresponse)"
    by (simp_all add: loadBookings_finish_def)
  have safe: "js_ceil (js_div (Fin (of_int t)) (Fin (of_int l)))
        = Fin (of_int \<lceil>(of_int t :: rat) / of_int l\<rceil>)
      \<and> \<lceil>(of_int t :: rat) / of_int l\<rceil> = (t + l - 1) div l
      \<and> ((t + l - 1) div l - 1) * l < t \<and> t \<le> (t + l - 1) div l * l"
    if "0 \<le> t \<and> t < 2 ^ 53 \<and> 0 < l \<and> l < 2 ^ 53" for t l :: int
  proof -
    from that have h: "0 \<le> t" "t < 2 ^ 53" "0 < l" "l < 2 ^ 53" by simp_all
    from js_ceil_div_safe [OF h] ceiling_pages(1) [OF h(3), of t] js_ceil_div_pages(2,3) [OF h]
    show ?thesis by blast
  qed
  have pages:
    "\<forall>t l. 0 \<le> t \<and> t < 2 ^ 53 \<and> 0 < l \<and> l < 2 ^ 53 \<longrightarrow>
         (pr_total cresponse = Fin (of_int t) \<and> pr_limit cresponse = Fin (of_int l) \<longrightarrow>
            totalPages (fetchCustomers_finish (Resolved cresponse) cs)
              = Fin (of_int \<lceil>(of_int t :: rat) / of_int l\<rceil>))
       \<and> (pr_total presponse = Fin (of_int t) \<and> pr_limit presponse = Fin (of_int l) \<longrightarrow>
            totalPages (fetchPayments_finish (Resolved presponse) ps)
              = Fin (of_int \<lceil>(of_int t :: rat) / of_int l\<rceil>))
       \<and> (pr_total rresponse = Fin (of_int t) \<and> pr_limit rresponse = Fin (of_int l) \<longrightarrow>
            totalPages (fetchReviews_finish (Resolved rresponse) rs)
              = Fin (of_int \<lceil>(of_int t :: rat) / of_int l\<rceil>))
       \<and> \<lceil>(of_int t :: rat) / of_int l\<rceil> = (t + l - 1) div l
       \<and> ((t + l - 1) div l - 1) * l < t \<and> t \<le> (t + l - 1) div l * l"
  proof (intro allI impI)
    fix t l :: int
    assume h: "0 \<le> t \<and> t < 2 ^ 53 \<and> 0 < l \<and> l < 2 ^ 53"
    from safe [OF h] show
      "(pr_total cresponse = Fin (of_int t) \<and> pr_limit cresponse = Fin (of_int l) \<longrightarrow>
            totalPages (fetchCustomers_finish (Resolved cresponse) cs)
              = Fin (of_int \<lceil>(of_int t :: rat) / of_int l\<rceil>))
       \<and> (pr_total presponse = Fin (of_int t) \<and> pr_limit presponse = Fin (of_int l) \<longrightarrow>
            totalPages (fetchPayments_finish (Resolved presponse) ps)
              = Fin (of_int \<lceil>(of_int t :: rat) / of_int l\<rceil>))
       \<and> (pr_total rresponse = Fin (of_int t) \<and> pr_limit rresponse = Fin (of_int l) \<longrightarrow>
            totalPages (fetchReviews_finish (Resolved rresponse) rs)
              = Fin (of_int \<lceil>(of_int t :: rat) / of_int l\<rceil>))
       \<and> \<lceil>(of_int t :: rat) / of_int l\<rceil> = (t + l - 1) div l
       \<and> ((t + l - 1) div l - 1) * l < t \<and> t \<le> (t + l - 1) div l * l"
      unfolding stored by (auto simp del: js_div.simps(1) js_ceil.simps)
  qed
  have zero:
    "\<forall>lmt. lmt \<noteq> 0 \<longrightarrow>
         (pr_total cresponse = Fin 0 \<and> pr_limit cresponse = Fin lmt \<longrightarrow>
            totalPages (fetchCustomers_finish (Resolved cresponse) cs) = Fin 0)
       \<and> (pr_total presponse = Fin 0 \<and> pr_limit presponse = Fin lmt \<longrightarrow>
            totalPages (fetchPayments_finish (Resolved presponse) ps) = Fin 0)
       \<and> (pr_total rresponse = Fin 0 \<and> pr_limit rresponse = Fin lmt \<longrightarrow>
            totalPages (fetchReviews_finish (Resolved rresponse) rs) = Fin 0)"
    unfolding stored using js_ceil_div_zero by (auto simp del: js_div.simps(1) js_ceil.simps)
  show ?thesis
    by (intro conjI) (rule stored pages zero bookings)+
qed

theorem C7_totalPages_witness:
  "totalPages (fetchCustomers_finish
       (Resolved \<lparr> pr_data = [''c1'', ''c2'', ''c3''], pr_total = Fin 25, pr_limit = Fin 10,
                   pr_page = Fin 1, pr_totalPages = Fin 3 \<rparr>)
       \<lparr> items = [], loading = True, fetchError = None, page = 1, totalPages = Fin 1,
         filters = Map.empty, searchTerm = [], requests = [] \<rparr>) = Fin 3
   \<and> totalPages (fetchReviews_finish
       (Resolved \<lparr> pr_data = [''c1'', ''c2'', ''c3''], pr_total = Fin 25, pr_limit = Fin 10,
                   pr_page = Fin 1, pr_totalPages = Fin 3 \<rparr>)
       \<lparr> items = [], loading = True, fetchError = None, page = 1, totalPages = Fin 1,
         filters = Map.empty, searchTerm = [], requests = [] \<rparr>) = Fin 3
   \<and> totalPages (fetchPayments_finish
       (Resolved \<lparr> pr_data = ([] :: string list), pr_total = Fin 0, pr_limit = Fin 10,
                   pr_page = Fin 1, pr_totalPages = Fin 0 \<rparr>)
       \<lparr> items = [], loading = True, fetchError = None, page = 1, totalPages = Fin 1,
         filters = Map.empty, searchTerm = [], requests = [] \<rparr>) = Fin 0"
proof -
  let ?r = "\<lparr> pr_data = [''c1'', ''c2'', ''c3''], pr_total = Fin 25, pr_limit = Fin 10,
              pr_page = Fin 1, pr_totalPages = Fin 3 \<rparr>"
  let ?r' = "\<lparr> pr_data = ([] :: string list), pr_total = Fin 0, pr_limit = Fin 10,
               pr_page = Fin 1, pr_totalPages = Fin 0 \<rparr>"
  let ?s = "\<lparr> items = [], loading = True, fetchError = None, page = 1, totalPages = Fin 1,
              filters = Map.empty, searchTerm = [], requests = [] \<rparr> :: string list_screen"
  let ?b = "\<lparr> bookings = [], bk_loading = True, bk_error = None,
              pagination = \<lparr> pagination_page = 1, pagination_limit = 10,
                             pagination_total = Fin 0, pagination_totalPages = Fin 0 \<rparr>,
              bk_filters = \<lparr> status = [], search = [], dateFrom = [], dateTo = [] \<rparr>,
              selectedBooking = None, showStatusModal = False, showDetailsModal = False,
              showDeleteModal = False, actionLoading = False, bk_requests = [] \<rparr>
            :: string booking_screen"
  let ?m = "\<lparr> br_data = [], br_meta = \<lparr> meta_total = Fin 0, meta_totalPages = Fin 0 \<rparr> \<rparr>
            :: string booking_response"
  note inst = C7_totalPages [of ?r ?s ?r' ?s ?r ?s ?m ?b]
  have range: "(0 :: int) \<le> 25 \<and> (25 :: int) < 2 ^ 53 \<and> (0 :: int) < 10 \<and> (10 :: int) < 2 ^ 53"
    by simp
  have h1: "pr_total ?r = Fin (of_int 25) \<and> pr_limit ?r = Fin (of_int 10)" by simp
  have h2: "pr_total ?r' = Fin 0 \<and> pr_limit ?r' = Fin 10" and nz: "(10 :: rat) \<noteq> 0" by simp_all
  have c: "of_int \<lceil>(of_int 25 :: rat) / of_int 10\<rceil> = (3 :: rat)"
  proof -
    have "\<lceil>(25 :: rat) / 10\<rceil> = 3" by (simp add: ceiling_eq_iff)
    then show ?thesis by simp
  qed
  from inst range h1
  have "totalPages (fetchCustomers_finish (Resolved ?r) ?s)
          = Fin (of_int \<lceil>(of_int 25 :: rat) / of_int 10\<rceil>)"
    and "totalPages (fetchReviews_finish (Resolved ?r) ?s)
          = Fin (of_int \<lceil>(of_int 25 :: rat) / of_int 10\<rceil>)"
    by blast+
  then have w1: "totalPages (fetchCustomers_finish (Resolved ?r) ?s) = Fin 3"
    and w2: "totalPages (fetchReviews_finish (Resolved ?r) ?s) = Fin 3"
    by (simp_all only: c)
  from inst h2 nz
  have w3: "totalPages (fetchPayments_finish (Resolved ?r') ?s) = Fin 0"
    by blast
  from w1 w2 w3 show ?thesis by blast
qed

lemma handleFilterChange_resets_page:
  "page (handleFilterChange_customers newFilters s) = 1
   \<and> filters (handleFilterChange_customers newFilters s) = filters s ++ newFilters
   \<and> requests (handleFilterChange_customers newFilters s)
       = requests s
         @ [ListRequest 1 10 ((filters s ++ newFilters)(''search'' \<mapsto> FStr (searchTerm s))),
            StatisticsRequest]
   \<and> page (handleFilterChange_payments newFilters s) = 1
   \<and> filters (handleFilterChange_payments newFilters s) = filters s ++ newFilters
   \<and> requests (handleFilterChange_payments newFilters s)
       = requests s @ [ListRequest 1 10 (filters s ++ newFilters)]"
  by (simp add: handleFilterChange_customers_def customers_rerender_def customers_effect_def
      fetchCustomers_start_def handleFilterChange_payments_def payments_rerender_def
      fetchPayments_start_def Let_def)

lemma booking_filter_change_keeps_page:
  "pagination (onChange_search v s) = pagination s
   \<and> pagination (onChange_status v s) = pagination s
   \<and> pagination (onChange_dateFrom v s) = pagination s
   \<and> pagination (onChange_dateTo v s) = pagination s
   \<and> bk_requests (onChange_status v s)
       = bk_requests s
         @ [ListRequest (pagination_page (pagination s)) (pagination_limit (pagination s))
              ((bk_filters s)\<lparr> status := (if v \<noteq> [] then [v] else []) \<rparr>)]
   \<and> pagination_page (pagination (onClick_resetFilter s)) = 1"
  by (simp add: onChange_search_def onChange_status_def onChange_dateFrom_def onChange_dateTo_def
      onClick_resetFilter_def bookings_rerender_def loadBookings_start_def)

text \<open>
  C8 asks that a filter change on any list screen put the page back to 1 and send one
  request with the new filters. The customers and payments screens do so
  (\<open>handleFilterChange_resets_page\<close>), and so does the reset button of the bookings
  screen. The filter controls of the bookings screen do not: on page 2, choosing the
  status \<^verbatim>\<open>PENDING\<close> sends the one request with the new status, for page 2, and the page
  stays 2.
\<close>

theorem C8_bookings_filter_keeps_page:
  "pagination_page (pagination (onChange_status ''PENDING''
       \<lparr> bookings = [()], bk_loading = False, bk_error = None,
         pagination = \<lparr> pagination_page = 2, pagination_limit = 10,
                        pagination_total = Fin 25, pagination_totalPages = Fin 3 \<rparr>,
         bk_filters = \<lparr> status = [], search = [], dateFrom = [], dateTo = [] \<rparr>,
         selectedBooking = None, showStatusModal = False, showDetailsModal = False,
         showDeleteModal = False, actionLoading = False, bk_requests = [] \<rparr>)) = 2
   \<and> bk_requests (onChange_status ''PENDING''
       \<lparr> bookings = [()], bk_loading = False, bk_error = None,
         pagination = \<lparr> pagination_page = 2, pagination_limit = 10,
                        pagination_total = Fin 25, pagination_totalPages = Fin 3 \<rparr>,
         bk_filters = \<lparr> status = [], search = [], dateFrom = [], dateTo = [] \<rparr>,
         selectedBooking = None, showStatusModal = False, showDetailsModal = False,
         showDeleteModal = False, actionLoading = False, bk_requests = [] \<rparr>)
     = [ListRequest 2 10 \<lparr> status = [''PENDING''], search = [], dateFrom = [], dateTo = [] \<rparr>]"
  by (simp add: onChange_status_def bookings_rerender_def loadBookings_start_def)




end
